theory Spec2Isabelle
  imports Main "HOL-Library.Char_ord" "HOL-Library.List_Lexorder" "HOL-Library.AList"
begin

section \<open>The values the chaincode computes with\<close>

text \<open>
  The chaincode of \<^verbatim>\<open>ngo.js\<close> reads and writes JSON texts. A decoded text is one of the
  values below. \<open>JUndefined\<close> is what reading a property that is nowhere gives. An
  object is the association list of its own properties, in enumeration order, with
  distinct names. \<open>JNative\<close> is a member that a value inherits from the built-in
  prototypes (\<^verbatim>\<open>constructor\<close>, \<^verbatim>\<open>toString\<close>, \<^verbatim>\<open>__proto__\<close>, the methods of strings and
  arrays): a function or a prototype object, given by a name (two are the same object
  when the names are the same) and by the primitive value that the conversion of
  \<^verbatim>\<open>+\<close> and \<^verbatim>\<open>==\<close> gives for it, the text \<^verbatim>\<open>function Object() { [native code] }\<close> for
  example. Numbers are the integers, text is ASCII, so that a byte is a character and a
  stored value is identified with its \<^verbatim>\<open>toString('utf8')\<close>.
\<close>

datatype prim = PBool bool | PNum int | PStr string

datatype jsval =
    JUndefined
  | JNull
  | JBool bool
  | JNum int
  | JStr string
  | JArr "jsval list"
  | JObj "(string \<times> jsval) list"
  | JNative string prim

text \<open>
  The prototype chain of a value, on which its inherited members are looked up: that of
  the objects, the arrays, the strings, the numbers, the booleans, and that of an
  inherited member itself.
\<close>

datatype chain = OfObject | OfArray | OfString | OfNumber | OfBoolean | OfNative string

text \<open>
  The runtime's own functions are parameters of the model: \<^verbatim>\<open>JSON.parse\<close>
  (\<open>None\<close> when it throws a SyntaxError), \<^verbatim>\<open>JSON.stringify\<close>, the conversion of a
  string to a number that the loose equality \<^verbatim>\<open>==\<close> applies (\<open>None\<close> when the
  string denotes no integer), the printing of a number (plain decimal below \<open>10^21\<close>,
  \<^verbatim>\<open>1e+21\<close> from there on), and the member of a name on a prototype chain, by its
  name and primitive value (\<open>None\<close> when the chain has none).
\<close>

record host =
  JSON_parse :: "string \<Rightarrow> jsval option"
  JSON_stringify :: "jsval \<Rightarrow> string"
  StringToNumber :: "string \<Rightarrow> int option"
  NumberToString :: "int \<Rightarrow> string"
  inherited :: "chain \<Rightarrow> string \<Rightarrow> (string \<times> prim) option"

datatype error =
    SyntaxError
  | TypeError
  | KeyDoesNotExist string
  | MissingDocType string
  | EntityDoesNotExist string
  | EntryAlreadyExists string
  | InvalidKey

subsection \<open>Truthiness, printing, property access, loose equality\<close>

fun truthy :: "jsval \<Rightarrow> bool" where
  "truthy JUndefined = False"
| "truthy JNull = False"
| "truthy (JBool b) = b"
| "truthy (JNum n) = (n \<noteq> 0)"
| "truthy (JStr s) = (s \<noteq> [])"
| "truthy (JArr xs) = True"
| "truthy (JObj kvs) = True"
| "truthy (JNative n p) = True"

fun of_prim :: "prim \<Rightarrow> jsval" where
  "of_prim (PBool b) = JBool b"
| "of_prim (PNum n) = JNum n"
| "of_prim (PStr s) = JStr s"

fun prim_toString :: "host \<Rightarrow> prim \<Rightarrow> string" where
  "prim_toString h (PBool b) = (if b then ''true'' else ''false'')"
| "prim_toString h (PNum n) = NumberToString h n"
| "prim_toString h (PStr s) = s"

fun join_comma :: "string list \<Rightarrow> string" where
  "join_comma [] = []"
| "join_comma [s] = s"
| "join_comma (s # t # ss) = s @ '','' @ join_comma (t # ss)"

text \<open>
  The text of a value in \<^verbatim>\<open>x + "..."\<close> and \<^verbatim>\<open>"..." + x\<close>. An object prints as
  \<^verbatim>\<open>[object Object]\<close> by the method \<^verbatim>\<open>toString\<close> it inherits; when it has a property
  of that name of its own, which holds JSON data and cannot be called, no method gives
  a primitive value and the conversion is a TypeError. An array prints its elements
  joined by commas, \<^verbatim>\<open>null\<close> and \<^verbatim>\<open>undefined\<close> elements as nothing.
\<close>

fun js_toString :: "host \<Rightarrow> jsval \<Rightarrow> error + string"
  and elements_toString :: "host \<Rightarrow> jsval list \<Rightarrow> error + string list"
where
  "js_toString h JUndefined = Inr ''undefined''"
| "js_toString h JNull = Inr ''null''"
| "js_toString h (JBool b) = Inr (if b then ''true'' else ''false'')"
| "js_toString h (JNum n) = Inr (NumberToString h n)"
| "js_toString h (JStr s) = Inr s"
| "js_toString h (JArr xs) =
     (case elements_toString h xs of Inl e \<Rightarrow> Inl e | Inr ss \<Rightarrow> Inr (join_comma ss))"
| "js_toString h (JObj kvs) =
     (if map_of kvs ''toString'' \<noteq> None then Inl TypeError else Inr ''[object Object]'')"
| "js_toString h (JNative n p) = Inr (prim_toString h p)"
| "elements_toString h [] = Inr []"
| "elements_toString h (x # xs) =
     (case (if x = JUndefined \<or> x = JNull then Inr [] else js_toString h x) of
        Inl e \<Rightarrow> Inl e
      | Inr s \<Rightarrow>
          (case elements_toString h xs of Inl e \<Rightarrow> Inl e | Inr ss \<Rightarrow> Inr (s # ss)))"

text \<open>
  The primitive value of an operand of \<^verbatim>\<open>+\<close> and \<^verbatim>\<open>==\<close>: an object and an array give
  their text, an inherited member its primitive value.
\<close>

fun to_primitive :: "host \<Rightarrow> jsval \<Rightarrow> error + jsval" where
  "to_primitive h (JArr xs) =
     (case js_toString h (JArr xs) of Inl e \<Rightarrow> Inl e | Inr s \<Rightarrow> Inr (JStr s))"
| "to_primitive h (JObj kvs) =
     (case js_toString h (JObj kvs) of Inl e \<Rightarrow> Inl e | Inr s \<Rightarrow> Inr (JStr s))"
| "to_primitive h (JNative n p) = Inr (of_prim p)"
| "to_primitive h x = Inr x"

text \<open>The decimal digits of an array index.\<close>

definition digit_char :: "nat \<Rightarrow> char" where
  "digit_char d = char_of (of_char CHR ''0'' + d)"

fun nat_to_dec :: "nat \<Rightarrow> string" where
  "nat_to_dec n = (if n < 10 then [digit_char n] else nat_to_dec (n div 10) @ [digit_char (n mod 10)])"

text \<open>The array index a property name denotes, if it is one below \<open>n\<close>.\<close>

definition array_index :: "string \<Rightarrow> nat \<Rightarrow> nat option" where
  "array_index k n = find (\<lambda>i. nat_to_dec i = k) [0..<n]"

text \<open>
  \<^verbatim>\<open>x[k]\<close>: a TypeError on \<^verbatim>\<open>null\<close> and \<^verbatim>\<open>undefined\<close>; an own property of an object,
  \<^verbatim>\<open>length\<close> and the indices of a string or an array; otherwise the member of that name
  that the value inherits.
\<close>

fun chain_of :: "jsval \<Rightarrow> chain" where
  "chain_of (JArr xs) = OfArray"
| "chain_of (JStr s) = OfString"
| "chain_of (JNum n) = OfNumber"
| "chain_of (JBool b) = OfBoolean"
| "chain_of (JNative n p) = OfNative n"
| "chain_of x = OfObject"

definition member :: "host \<Rightarrow> jsval \<Rightarrow> string \<Rightarrow> jsval" where
  "member h x k =
     (case inherited h (chain_of x) k of None \<Rightarrow> JUndefined | Some (n, p) \<Rightarrow> JNative n p)"

fun js_get :: "host \<Rightarrow> jsval \<Rightarrow> string \<Rightarrow> error + jsval" where
  "js_get h JUndefined k = Inl TypeError"
| "js_get h JNull k = Inl TypeError"
| "js_get h (JStr s) k =
     (if k = ''length'' then Inr (JNum (int (length s)))
      else case array_index k (length s) of
             Some i \<Rightarrow> Inr (JStr [s ! i])
           | None \<Rightarrow> Inr (member h (JStr s) k))"
| "js_get h (JArr xs) k =
     (if k = ''length'' then Inr (JNum (int (length xs)))
      else case array_index k (length xs) of
             Some i \<Rightarrow> Inr (xs ! i)
           | None \<Rightarrow> Inr (member h (JArr xs) k))"
| "js_get h (JObj kvs) k =
     (case map_of kvs k of Some v \<Rightarrow> Inr v | None \<Rightarrow> Inr (member h (JObj kvs) k))"
| "js_get h x k = Inr (member h x k)"

text \<open>
  \<^verbatim>\<open>x == y\<close>. Two objects are equal only when they are the same object: two inherited
  members of the same name; an object or an array decoded from a text is never the same
  as the other operand, which in this program comes from another call of
  \<^verbatim>\<open>JSON.parse\<close>. An object compared with a primitive is converted first, which can be
  a TypeError; a boolean is compared as a number, a number and a string as numbers.
\<close>

definition bool_num :: "bool \<Rightarrow> int" where
  "bool_num b = (if b then 1 else 0)"

fun is_object :: "jsval \<Rightarrow> bool" where
  "is_object (JArr xs) = True"
| "is_object (JObj kvs) = True"
| "is_object (JNative n p) = True"
| "is_object x = False"

fun same_object :: "jsval \<Rightarrow> jsval \<Rightarrow> bool" where
  "same_object (JNative n p) (JNative m q) = (n = m)"
| "same_object x y = False"

fun num_loose_eq :: "host \<Rightarrow> int \<Rightarrow> jsval \<Rightarrow> bool" where
  "num_loose_eq h n (JNum m) = (n = m)"
| "num_loose_eq h n (JBool b) = (n = bool_num b)"
| "num_loose_eq h n (JStr s) = (StringToNumber h s = Some n)"
| "num_loose_eq h n y = False"

fun str_loose_eq :: "host \<Rightarrow> string \<Rightarrow> jsval \<Rightarrow> bool" where
  "str_loose_eq h s (JStr t) = (s = t)"
| "str_loose_eq h s (JNum m) = (StringToNumber h s = Some m)"
| "str_loose_eq h s (JBool b) = (StringToNumber h s = Some (bool_num b))"
| "str_loose_eq h s y = False"

text \<open>The equality of two primitive values.\<close>

fun prim_loose_eq :: "host \<Rightarrow> jsval \<Rightarrow> jsval \<Rightarrow> bool" where
  "prim_loose_eq h JUndefined y = (y = JUndefined \<or> y = JNull)"
| "prim_loose_eq h JNull y = (y = JUndefined \<or> y = JNull)"
| "prim_loose_eq h (JBool b) y = num_loose_eq h (bool_num b) y"
| "prim_loose_eq h (JNum n) y = num_loose_eq h n y"
| "prim_loose_eq h (JStr s) y = str_loose_eq h s y"
| "prim_loose_eq h x y = False"

definition loose_eq :: "host \<Rightarrow> jsval \<Rightarrow> jsval \<Rightarrow> error + bool" where
  "loose_eq h x y =
     (if is_object x \<and> is_object y then Inr (same_object x y)
      else if is_object x then
        (if y = JUndefined \<or> y = JNull then Inr False
         else case to_primitive h x of
                Inl e \<Rightarrow> Inl e
              | Inr px \<Rightarrow> Inr (prim_loose_eq h px y))
      else if is_object y then
        (if x = JUndefined \<or> x = JNull then Inr False
         else case to_primitive h y of
                Inl e \<Rightarrow> Inl e
              | Inr py \<Rightarrow> Inr (prim_loose_eq h x py))
      else Inr (prim_loose_eq h x y))"

text \<open>
  \<^verbatim>\<open>Object.keys(x)\<close> and the names a \<^verbatim>\<open>for (var key in x)\<close> loop visits: the own
  properties; the inherited members are not enumerable.
\<close>

definition index_names :: "nat \<Rightarrow> string list" where
  "index_names n = map nat_to_dec [0..<n]"

fun for_in_keys :: "jsval \<Rightarrow> string list" where
  "for_in_keys (JObj kvs) = map fst kvs"
| "for_in_keys (JArr xs) = index_names (length xs)"
| "for_in_keys (JStr s) = index_names (length s)"
| "for_in_keys x = []"

fun Object_keys :: "jsval \<Rightarrow> error + string list" where
  "Object_keys JUndefined = Inl TypeError"
| "Object_keys JNull = Inl TypeError"
| "Object_keys x = Inr (for_in_keys x)"

text \<open>
  \<^verbatim>\<open>x.hasOwnProperty(k)\<close>. The method is inherited; an object decoded from a text that has
  a property of that name holds JSON data there, and calling it is a TypeError.
\<close>

fun hasOwnProperty :: "jsval \<Rightarrow> string \<Rightarrow> error + bool" where
  "hasOwnProperty JUndefined k = Inl TypeError"
| "hasOwnProperty JNull k = Inl TypeError"
| "hasOwnProperty (JObj kvs) k =
     (if map_of kvs ''hasOwnProperty'' \<noteq> None then Inl TypeError
      else Inr (map_of kvs k \<noteq> None))"
| "hasOwnProperty (JArr xs) k = Inr (k = ''length'' \<or> array_index k (length xs) \<noteq> None)"
| "hasOwnProperty (JStr s) k = Inr (k = ''length'' \<or> array_index k (length s) \<noteq> None)"
| "hasOwnProperty x k = Inr False"

text \<open>
  \<^verbatim>\<open>json['docType'] = t\<close> under \<^verbatim>\<open>'use strict'\<close>: a TypeError on a primitive. On an
  array the property is set beside the elements, where neither the reads of this program
  nor \<^verbatim>\<open>JSON.stringify\<close> see it.
\<close>

fun set_docType :: "jsval \<Rightarrow> string \<Rightarrow> error + jsval" where
  "set_docType (JObj kvs) t = Inr (JObj (AList.update ''docType'' (JStr t) kvs))"
| "set_docType (JArr xs) t = Inr (JArr xs)"
| "set_docType x t = Inl TypeError"

text \<open>
  \<^verbatim>\<open>a + b\<close> as a ledger key: both operands are converted, the left one first; the sum
  is the concatenation of their texts when one of the primitive values is a string, and
  a number (\<open>None\<close>) when neither is.
\<close>

fun is_string :: "jsval \<Rightarrow> bool" where
  "is_string (JStr s) = True"
| "is_string x = False"

definition js_plus_string :: "host \<Rightarrow> jsval \<Rightarrow> jsval \<Rightarrow> error + string option" where
  "js_plus_string h a b =
     (case to_primitive h a of
        Inl e \<Rightarrow> Inl e
      | Inr pa \<Rightarrow>
          (case to_primitive h b of
             Inl e \<Rightarrow> Inl e
           | Inr pb \<Rightarrow>
               if is_string pa \<or> is_string pb
               then (case js_toString h pa of
                       Inl e \<Rightarrow> Inl e
                     | Inr sa \<Rightarrow>
                         (case js_toString h pb of
                            Inl e \<Rightarrow> Inl e
                          | Inr sb \<Rightarrow> Inr (Some (sa @ sb))))
               else Inr None))"

section \<open>The ledger interface\<close>

text \<open>
  The stub of one invocation, as the shim that gives the results of a history iterator
  the fields \<^verbatim>\<open>tx_id\<close>, \<^verbatim>\<open>timestamp\<close> and \<^verbatim>\<open>is_delete\<close> has it: the committed world state
  the reads see, the change log of every key, the writes the invocation has proposed, and
  how many iterators it has opened and closed. \<open>done_with_last\<close> tells which of the two
  iterator protocols the interface speaks: \<^verbatim>\<open>done\<close> set together with the last element,
  or only after it.
\<close>

record KV =
  kv_key :: string
  kv_value :: string

type_synonym timestamp = "int \<times> int"

record KeyModification =
  km_tx_id :: string
  km_timestamp :: timestamp
  km_is_delete :: bool
  km_value :: string

record stub =
  world :: "(string \<times> string) list"
  key_history :: "(string \<times> KeyModification list) list"
  write_set :: "(string \<times> string) list"
  done_with_last :: bool
  iterators_opened :: nat
  iterators_closed :: nat

text \<open>
  The value of a result of an iterator is a byte buffer of the message library. Its
  \<^verbatim>\<open>toString('utf8')\<close> is the text of the bytes; its \<^verbatim>\<open>toString()\<close> without an encoding
  is a description of the buffer, here that of a buffer holding the value alone, and is
  never empty, whatever the bytes are.
\<close>

definition ByteBuffer_toString :: "string \<Rightarrow> string" where
  "ByteBuffer_toString v =
     ''ByteBufferNB(offset=0,markedOffset=-1,limit='' @ nat_to_dec (length v)
       @ '',capacity='' @ nat_to_dec (length v) @ '')''"

text \<open>
  \<open>getState\<close> gives a plain buffer, whose \<^verbatim>\<open>toString()\<close> is the text of its bytes. A key
  that is not in the world state reads as the empty buffer.
\<close>

definition getState :: "stub \<Rightarrow> string \<Rightarrow> string" where
  "getState stub key = (case map_of (world stub) key of None \<Rightarrow> [] | Some v \<Rightarrow> v)"

definition putState :: "stub \<Rightarrow> string \<Rightarrow> string \<Rightarrow> stub" where
  "putState stub key v = stub\<lparr>write_set := write_set stub @ [(key, v)]\<rparr>"

text \<open>
  The range scan: the keys \<open>startKey \<le> k < endKey\<close> in ascending order of their bytes;
  an empty bound is no bound.
\<close>

definition in_range :: "string \<Rightarrow> string \<Rightarrow> string \<Rightarrow> bool" where
  "in_range startKey endKey k = (startKey \<le> k \<and> (endKey = [] \<or> k < endKey))"

definition range_entries :: "stub \<Rightarrow> string \<Rightarrow> string \<Rightarrow> KV list" where
  "range_entries stub startKey endKey =
     map (\<lambda>(k, v). \<lparr>kv_key = k, kv_value = v\<rparr>)
       (sort_key fst (filter (\<lambda>(k, v). in_range startKey endKey k) (AList.clearjunk (world stub))))"

definition getStateByRange :: "stub \<Rightarrow> string \<Rightarrow> string \<Rightarrow> KV list \<times> stub" where
  "getStateByRange stub startKey endKey =
     (range_entries stub startKey endKey, stub\<lparr>iterators_opened := Suc (iterators_opened stub)\<rparr>)"

definition history_of :: "stub \<Rightarrow> string \<Rightarrow> KeyModification list" where
  "history_of stub key = (case map_of (key_history stub) key of None \<Rightarrow> [] | Some ms \<Rightarrow> ms)"

definition getHistoryForKey :: "stub \<Rightarrow> string \<Rightarrow> KeyModification list \<times> stub" where
  "getHistoryForKey stub key =
     (history_of stub key, stub\<lparr>iterators_opened := Suc (iterators_opened stub)\<rparr>)"

text \<open>An iterator is the list of the results it has not yet given.\<close>

record 'a next_result =
  res_value :: "'a option"
  res_done :: bool

fun iterator_next :: "bool \<Rightarrow> 'a list \<Rightarrow> 'a next_result \<times> 'a list" where
  "iterator_next eager [] = (\<lparr>res_value = None, res_done = True\<rparr>, [])"
| "iterator_next eager (x # xs) = (\<lparr>res_value = Some x, res_done = (eager \<and> xs = [])\<rparr>, xs)"

definition iterator_close :: "stub \<Rightarrow> stub" where
  "iterator_close stub = stub\<lparr>iterators_closed := Suc (iterators_closed stub)\<rparr>"

section \<open>The general functions\<close>

subsection \<open>queryByKey\<close>

text \<open>
  \<open>resultAsBytes\<close> is a buffer, an object, so \<^verbatim>\<open>!resultAsBytes\<close> is false and the
  test is that of its length.
\<close>

definition queryByKey :: "stub \<Rightarrow> string \<Rightarrow> error + string" where
  "queryByKey stub key =
     (let resultAsBytes = getState stub key in
      if length resultAsBytes \<le> 0 then Inl (KeyDoesNotExist key)
      else Inr resultAsBytes)"

subsection \<open>queryByString\<close>

record QueryResult =
  Key :: string
  Record :: jsval

text \<open>\<^verbatim>\<open>try { JSON.parse(s) } catch (err) { s }\<close>\<close>

definition parse_or_raw :: "host \<Rightarrow> string \<Rightarrow> jsval" where
  "parse_or_raw h s = (case JSON_parse h s of Some v \<Rightarrow> v | None \<Rightarrow> JStr s)"

text \<open>
  The \<^verbatim>\<open>for (var key in jsonRecord)\<close> loop over the names still to visit. The two lines
  that log \<^verbatim>\<open>jsonRecord[key]\<close> and \<^verbatim>\<open>jsonRes.Record[key]\<close> concatenate them to a string,
  which converts them and can be a TypeError.
\<close>

fun filter_fields ::
  "host \<Rightarrow> jsval \<Rightarrow> QueryResult \<Rightarrow> string list \<Rightarrow> QueryResult list \<Rightarrow> error + QueryResult list"
where
  "filter_fields h jsonRecord jsonRes [] allResults = Inr allResults"
| "filter_fields h jsonRecord jsonRes (key # keys) allResults =
     (case hasOwnProperty jsonRecord key of
        Inl e \<Rightarrow> Inl e
      | Inr False \<Rightarrow> filter_fields h jsonRecord jsonRes keys allResults
      | Inr True \<Rightarrow>
          (case js_get h jsonRecord key of
             Inl e \<Rightarrow> Inl e
           | Inr want \<Rightarrow>
               (case js_toString h want of
                  Inl e \<Rightarrow> Inl e
                | Inr logged \<Rightarrow>
                    if key = ''docType'' then filter_fields h jsonRecord jsonRes keys allResults
                    else
                      (case js_get h (Record jsonRes) key of
                         Inl e \<Rightarrow> Inl e
                       | Inr found \<Rightarrow>
                           (case js_toString h found of
                              Inl e \<Rightarrow> Inl e
                            | Inr logged' \<Rightarrow>
                                if \<not> truthy found
                                then filter_fields h jsonRecord jsonRes keys allResults
                                else
                                  (case loose_eq h found want of
                                     Inl e \<Rightarrow> Inl e
                                   | Inr False \<Rightarrow>
                                       filter_fields h jsonRecord jsonRes keys allResults
                                   | Inr True \<Rightarrow>
                                       filter_fields h jsonRecord jsonRes keys
                                         (allResults @ [jsonRes])))))))"

text \<open>The body of the \<^verbatim>\<open>if (res.value && res.value.value.toString())\<close> of the scan.\<close>

definition scan_entry ::
  "host \<Rightarrow> jsval \<Rightarrow> KV \<Rightarrow> QueryResult list \<Rightarrow> error + QueryResult list"
where
  "scan_entry h jsonQueryString kv allResults =
     (let jsonRes = \<lparr>Key = kv_key kv, Record = parse_or_raw h (kv_value kv)\<rparr> in
      case js_get h jsonQueryString ''selector'' of
        Inl e \<Rightarrow> Inl e
      | Inr jsonRecord \<Rightarrow>
          (case Object_keys jsonRecord of
             Inl e \<Rightarrow> Inl e
           | Inr ks \<Rightarrow>
               if length ks = 1 then Inr (allResults @ [jsonRes])
               else filter_fields h jsonRecord jsonRes (for_in_keys jsonRecord) allResults))"

definition scan_result ::
  "host \<Rightarrow> jsval \<Rightarrow> KV next_result \<Rightarrow> QueryResult list \<Rightarrow> error + QueryResult list"
where
  "scan_result h jsonQueryString res allResults =
     (case res_value res of
        None \<Rightarrow> Inr allResults
      | Some kv \<Rightarrow>
          if ByteBuffer_toString (kv_value kv) \<noteq> [] then scan_entry h jsonQueryString kv allResults
          else Inr allResults)"

text \<open>
  The \<^verbatim>\<open>while (true)\<close> loop of the scan. The value returned is \<open>allResults\<close>; the
  payload is its \<^verbatim>\<open>JSON.stringify\<close>.
\<close>

function scan_loop ::
  "host \<Rightarrow> jsval \<Rightarrow> stub \<Rightarrow> KV list \<Rightarrow> QueryResult list \<Rightarrow> (error + QueryResult list) \<times> stub"
where
  "scan_loop h jsonQueryString stub iterator allResults =
     (let res = fst (iterator_next (done_with_last stub) iterator) in
      case scan_result h jsonQueryString res allResults of
        Inl e \<Rightarrow> (Inl e, stub)
      | Inr allResults' \<Rightarrow>
          if res_done res then (Inr allResults', iterator_close stub)
          else scan_loop h jsonQueryString stub
                 (snd (iterator_next (done_with_last stub) iterator)) allResults')"
  by pat_completeness auto
termination
proof (relation "measure (\<lambda>(h, q, stub, iterator, allResults). length iterator)")
  show "wf (measure (\<lambda>(h, q, stub, iterator, allResults). length iterator))"
    by simp
next
  fix h :: host and jsonQueryString :: jsval and stub :: stub and iterator :: "KV list"
    and allResults :: "QueryResult list" and res :: "KV next_result"
    and allResults' :: "QueryResult list"
  assume r: "res = fst (iterator_next (done_with_last stub) iterator)"
    and d: "\<not> res_done res"
  from r d show "((h, jsonQueryString, stub,
        snd (iterator_next (done_with_last stub) iterator), allResults'),
       (h, jsonQueryString, stub, iterator, allResults))
      \<in> measure (\<lambda>(h, q, stub, iterator, allResults). length iterator)"
    by (cases iterator) auto
qed

text \<open>
  \<^verbatim>\<open>docType + "0"\<close> and \<^verbatim>\<open>docType + "z"\<close> convert \<open>docType\<close> to its text, which can
  be a TypeError.
\<close>

definition queryByString :: "host \<Rightarrow> stub \<Rightarrow> string \<Rightarrow> (error + QueryResult list) \<times> stub" where
  "queryByString h stub queryString =
     (case JSON_parse h queryString of
        None \<Rightarrow> (Inl SyntaxError, stub)
      | Some jsonQueryString \<Rightarrow>
          (case js_get h jsonQueryString ''selector'' of
             Inl e \<Rightarrow> (Inl e, stub)
           | Inr selector \<Rightarrow>
               if \<not> truthy selector then (Inl (MissingDocType queryString), stub)
               else
                 (case js_get h selector ''docType'' of
                    Inl e \<Rightarrow> (Inl e, stub)
                  | Inr docType \<Rightarrow>
                      if \<not> truthy docType then (Inl (MissingDocType queryString), stub)
                      else
                        (case js_toString h docType of
                           Inl e \<Rightarrow> (Inl e, stub)
                         | Inr text \<Rightarrow>
                             (let startKey = text @ ''0'';
                                  endKey = text @ ''z'';
                                  opened = getStateByRange stub startKey endKey
                              in scan_loop h jsonQueryString (snd opened) (fst opened) [])))))"

section \<open>The chaincode\<close>

subsection \<open>createEntry\<close>

text \<open>
  \<^verbatim>\<open>'entry' + json['entryId']\<close> and \<^verbatim>\<open>'entity' + json['entityRegistrationNumber']\<close>
  convert the two values to their text, which can be a TypeError; the texts of the two
  error messages are those same conversions.
\<close>

definition createEntry :: "host \<Rightarrow> stub \<Rightarrow> string \<Rightarrow> (error + unit) \<times> stub" where
  "createEntry h stub args =
     (case JSON_parse h args of
        None \<Rightarrow> (Inl SyntaxError, stub)
      | Some json0 \<Rightarrow>
          (case js_get h json0 ''entryId'' of
             Inl e \<Rightarrow> (Inl e, stub)
           | Inr entryId \<Rightarrow>
               (case js_toString h entryId of
                  Inl e \<Rightarrow> (Inl e, stub)
                | Inr entryText \<Rightarrow>
                    (let key = ''entry'' @ entryText in
                     case set_docType json0 ''entry'' of
                       Inl e \<Rightarrow> (Inl e, stub)
                     | Inr json \<Rightarrow>
                         (case js_get h json ''entityRegistrationNumber'' of
                            Inl e \<Rightarrow> (Inl e, stub)
                          | Inr regNo \<Rightarrow>
                              (case js_toString h regNo of
                                 Inl e \<Rightarrow> (Inl e, stub)
                               | Inr regText \<Rightarrow>
                                   (let entityKey = ''entity'' @ regText;
                                        entityQuery = getState stub entityKey
                                    in if entityQuery = []
                                       then (Inl (EntityDoesNotExist regText), stub)
                                       else
                                         (let entryQuery = getState stub key in
                                          if entryQuery \<noteq> []
                                          then (Inl (EntryAlreadyExists entryText), stub)
                                          else (Inr (),
                                                putState stub key (JSON_stringify h json))))))))))"

subsection \<open>queryHistoryForKey\<close>

record HistoryResult =
  TxId :: string
  Timestamp :: timestamp
  IsDelete :: string
  HRecord :: jsval

text \<open>The body of the \<^verbatim>\<open>if (historyRecord.value && historyRecord.value.value.toString())\<close>.\<close>

definition history_entry :: "host \<Rightarrow> KeyModification \<Rightarrow> HistoryResult" where
  "history_entry h m =
     \<lparr>TxId = km_tx_id m, Timestamp = km_timestamp m,
      IsDelete = (if km_is_delete m then ''true'' else ''false''),
      HRecord = parse_or_raw h (km_value m)\<rparr>"

definition history_result ::
  "host \<Rightarrow> KeyModification next_result \<Rightarrow> HistoryResult list \<Rightarrow> HistoryResult list"
where
  "history_result h historyRecord history =
     (case res_value historyRecord of
        None \<Rightarrow> history
      | Some m \<Rightarrow>
          if ByteBuffer_toString (km_value m) \<noteq> [] then history @ [history_entry h m]
          else history)"

function history_loop ::
  "host \<Rightarrow> stub \<Rightarrow> KeyModification list \<Rightarrow> HistoryResult list \<Rightarrow> (error + HistoryResult list) \<times> stub"
where
  "history_loop h stub historyIterator history =
     (let historyRecord = fst (iterator_next (done_with_last stub) historyIterator);
          history' = history_result h historyRecord history
      in if res_done historyRecord then (Inr history', iterator_close stub)
         else history_loop h stub
                (snd (iterator_next (done_with_last stub) historyIterator)) history')"
  by pat_completeness auto
termination
proof (relation "measure (\<lambda>(h, stub, historyIterator, history). length historyIterator)")
  show "wf (measure (\<lambda>(h, stub, historyIterator, history). length historyIterator))"
    by simp
next
  fix h :: host and stub :: stub and historyIterator :: "KeyModification list"
    and history :: "HistoryResult list" and historyRecord :: "KeyModification next_result"
    and history' :: "HistoryResult list"
  assume r: "historyRecord = fst (iterator_next (done_with_last stub) historyIterator)"
    and d: "\<not> res_done historyRecord"
  from r d show "((h, stub, snd (iterator_next (done_with_last stub) historyIterator), history'),
       (h, stub, historyIterator, history))
      \<in> measure (\<lambda>(h, stub, historyIterator, history). length historyIterator)"
    by (cases historyIterator) auto
qed

text \<open>
  The log line \<^verbatim>\<open>'...' + key\<close> converts \<open>key\<close> to its text, and the key of the change
  log is \<^verbatim>\<open>docType + key\<close>; either can be a TypeError. The ledger interface takes a
  string, and a sum that is a number is refused.
\<close>

definition queryHistoryForKey ::
  "host \<Rightarrow> stub \<Rightarrow> string \<Rightarrow> (error + HistoryResult list) \<times> stub"
where
  "queryHistoryForKey h stub args =
     (case JSON_parse h args of
        None \<Rightarrow> (Inl SyntaxError, stub)
      | Some json \<Rightarrow>
          (case js_get h json ''key'' of
             Inl e \<Rightarrow> (Inl e, stub)
           | Inr key \<Rightarrow>
               (case js_get h json ''docType'' of
                  Inl e \<Rightarrow> (Inl e, stub)
                | Inr docType \<Rightarrow>
                    (case js_toString h key of
                       Inl e \<Rightarrow> (Inl e, stub)
                     | Inr logged \<Rightarrow>
                         (case js_plus_string h docType key of
                            Inl e \<Rightarrow> (Inl e, stub)
                          | Inr None \<Rightarrow> (Inl InvalidKey, stub)
                          | Inr (Some k) \<Rightarrow>
                              (let opened = getHistoryForKey stub k
                               in history_loop h (snd opened) (fst opened) []))))))"


section \<open>Notions the properties are stated with\<close>

text \<open>
  A field \<open>f\<close> of the selector is satisfied by a record when the test of the filter
  loop, \<^verbatim>\<open>jsonRes.Record[f] && jsonRes.Record[f] == jsonRecord[f]\<close>, holds.
\<close>

definition field_matches :: "host \<Rightarrow> jsval \<Rightarrow> jsval \<Rightarrow> string \<Rightarrow> bool" where
  "field_matches h record selector f =
     (case js_get h record f of
        Inl e \<Rightarrow> False
      | Inr found \<Rightarrow>
          (case js_get h selector f of
             Inl e \<Rightarrow> False
           | Inr want \<Rightarrow> truthy found \<and> loose_eq h found want = Inr True))"

text \<open>The entry \<open>jsonRes\<close> built for a scanned key and value.\<close>

definition query_result :: "host \<Rightarrow> KV \<Rightarrow> QueryResult" where
  "query_result h kv = \<lparr>Key = kv_key kv, Record = parse_or_raw h (kv_value kv)\<rparr>"

text \<open>How often the filter of the scan appends the entry of one scanned record.\<close>

definition copies :: "host \<Rightarrow> (string \<times> jsval) list \<Rightarrow> KV \<Rightarrow> nat" where
  "copies h sel kv =
     (if length sel = 1 then 1
      else length (filter (field_matches h (parse_or_raw h (kv_value kv)) (JObj sel))
                    (filter (\<lambda>k. k \<noteq> ''docType'') (map fst sel))))"

text \<open>
  The scan loop as a fold over the results of the iterator, each of which passes the
  guard of the loop.
\<close>

fun scan_fold :: "host \<Rightarrow> jsval \<Rightarrow> KV list \<Rightarrow> QueryResult list \<Rightarrow> error + QueryResult list" where
  "scan_fold h q [] acc = Inr acc"
| "scan_fold h q (kv # kvs) acc =
     (case scan_entry h q kv acc of
        Inl e \<Rightarrow> Inl e
      | Inr acc' \<Rightarrow> scan_fold h q kvs acc')"

text \<open>The values that convert without calling a method: all but the objects and arrays of a text.\<close>

fun plain :: "jsval \<Rightarrow> bool" where
  "plain (JArr xs) = False"
| "plain (JObj kvs) = False"
| "plain x = True"

section \<open>Example ledgers\<close>

text \<open>
  The texts of the examples and a host that decodes them. Its \<open>JSON_parse\<close> is
  \<^verbatim>\<open>JSON.parse\<close> on the texts of the table and on texts that are not JSON; its
  \<open>StringToNumber\<close> is the conversion on the strings of digits of the table; its
  \<open>NumberToString\<close> is the plain decimal of the small numbers of the examples; its
  \<open>inherited\<close> gives the \<^verbatim>\<open>constructor\<close> and the \<^verbatim>\<open>toString\<close> of an object, and nothing
  for the other names the examples read, none of which is inherited. No example writes
  to the ledger, and \<open>JSON_stringify\<close> is left blank.
\<close>

definition text_all_entities :: string where
  \<open>text_all_entities = ''{"selector": {"docType": "entity"}}''\<close>

definition text_entities_named_Alpha :: string where
  \<open>text_entities_named_Alpha = ''{"selector": {"docType": "entity", "entityName": "Alpha"}}''\<close>

definition text_Alpha_farms :: string where
  \<open>text_Alpha_farms =
     ''{"selector": {"docType": "entity", "entityName": "Alpha", "entityType": "Farm"}}''\<close>

definition text_empty_docType :: string where
  \<open>text_empty_docType = ''{"selector": {"docType": ""}}''\<close>

definition text_object_docType :: string where
  \<open>text_object_docType = ''{"selector": {"docType": {"toString": 1}}}''\<close>

definition text_constructor :: string where
  \<open>text_constructor =
     ''{"selector": {"docType": "entity", "constructor": "function Object() { [native code] }"}}''\<close>

definition text_Alpha_constructor :: string where
  \<open>text_Alpha_constructor =
     ''{"selector": {"docType": "entity", "entityName": "Alpha", "constructor": "function Object() { [native code] }"}}''\<close>

definition text_object_field :: string where
  \<open>text_object_field = ''{"selector": {"docType": "entity", "a": {"toString": 1}}}''\<close>

definition text_of_length_8 :: string where
  \<open>text_of_length_8 = ''{"selector": {"docType": "entity", "length": 8}}''\<close>

definition text_Alpha :: string where
  \<open>text_Alpha =
     ''{"docType":"entity","entityRegistrationNumber":"001","entityName":"Alpha","entityType":"Farm"}''\<close>

definition text_Beta :: string where
  \<open>text_Beta =
     ''{"docType":"entity","entityRegistrationNumber":"002","entityName":"Beta","entityType":"Farm"}''\<close>

definition text_history_args :: string where
  \<open>text_history_args = ''{"key": "001", "docType": "entity"}''\<close>

definition text_entry_args :: string where
  \<open>text_entry_args = ''{"entryId": "1", "entityRegistrationNumber": "999"}''\<close>

definition text_entry_args_object_id :: string where
  \<open>text_entry_args_object_id = ''{"entryId": {"toString": 1}, "entityRegistrationNumber": "999"}''\<close>

definition value_Alpha :: jsval where
  "value_Alpha =
     JObj [(''docType'', JStr ''entity''), (''entityRegistrationNumber'', JStr ''001''),
           (''entityName'', JStr ''Alpha''), (''entityType'', JStr ''Farm'')]"

definition value_Beta :: jsval where
  "value_Beta =
     JObj [(''docType'', JStr ''entity''), (''entityRegistrationNumber'', JStr ''002''),
           (''entityName'', JStr ''Beta''), (''entityType'', JStr ''Farm'')]"

definition text_of_Object :: string where
  "text_of_Object = ''function Object() { [native code] }''"

definition example_texts :: "(string \<times> jsval) list" where
  "example_texts =
     [(text_all_entities, JObj [(''selector'', JObj [(''docType'', JStr ''entity'')])]),
      (text_entities_named_Alpha,
         JObj [(''selector'', JObj [(''docType'', JStr ''entity''), (''entityName'', JStr ''Alpha'')])]),
      (text_Alpha_farms,
         JObj [(''selector'', JObj [(''docType'', JStr ''entity''), (''entityName'', JStr ''Alpha''),
                                    (''entityType'', JStr ''Farm'')])]),
      (text_empty_docType, JObj [(''selector'', JObj [(''docType'', JStr [])])]),
      (text_object_docType,
         JObj [(''selector'', JObj [(''docType'', JObj [(''toString'', JNum 1)])])]),
      (text_constructor,
         JObj [(''selector'', JObj [(''docType'', JStr ''entity''),
                                    (''constructor'', JStr text_of_Object)])]),
      (text_Alpha_constructor,
         JObj [(''selector'', JObj [(''docType'', JStr ''entity''), (''entityName'', JStr ''Alpha''),
                                    (''constructor'', JStr text_of_Object)])]),
      (text_object_field,
         JObj [(''selector'', JObj [(''docType'', JStr ''entity''),
                                    (''a'', JObj [(''toString'', JNum 1)])])]),
      (text_of_length_8,
         JObj [(''selector'', JObj [(''docType'', JStr ''entity''), (''length'', JNum 8)])]),
      (text_Alpha, value_Alpha),
      (text_Beta, value_Beta),
      (text_history_args, JObj [(''key'', JStr ''001''), (''docType'', JStr ''entity'')]),
      (text_entry_args, JObj [(''entryId'', JStr ''1''), (''entityRegistrationNumber'', JStr ''999'')]),
      (text_entry_args_object_id,
         JObj [(''entryId'', JObj [(''toString'', JNum 1)]),
               (''entityRegistrationNumber'', JStr ''999'')]),
      (''null'', JNull)]"

fun example_inherited :: "chain \<Rightarrow> string \<Rightarrow> (string \<times> prim) option" where
  "example_inherited OfObject k =
     (if k = ''constructor'' then Some (''Object'', PStr text_of_Object)
      else if k = ''toString''
        then Some (''Object.prototype.toString'', PStr ''function toString() { [native code] }'')
      else None)"
| "example_inherited x k = None"

definition example_host :: host where
  "example_host =
     \<lparr>JSON_parse = map_of example_texts,
      JSON_stringify = (\<lambda>v. []),
      StringToNumber = map_of [(''001'', 1), (''002'', 2), (''999'', 999), (''1'', 1)],
      NumberToString = (\<lambda>n. if n < 0 then CHR ''-'' # nat_to_dec (nat (- n)) else nat_to_dec (nat n)),
      inherited = example_inherited\<rparr>"

definition ledger :: "(string \<times> string) list \<Rightarrow> stub" where
  "ledger w =
     \<lparr>world = w, key_history = [], write_set = [], done_with_last = True,
      iterators_opened = 0, iterators_closed = 0\<rparr>"

text \<open>The two entities of the first scenario.\<close>

definition two_entities :: stub where
  "two_entities = ledger [(''entity002'', text_Beta), (''entity001'', text_Alpha)]"


definition with_null_value :: stub where
  "with_null_value =
     ledger [(''entity002'', text_Beta), (''entity001'', text_Alpha), (''entity003'', ''null'')]"

definition with_raw_value :: stub where
  "with_raw_value =
     ledger [(''entity002'', text_Beta), (''entity001'', text_Alpha), (''entity003'', ''not json'')]"

text \<open>A key that was inserted, updated and deleted; the deletion has no value.\<close>

definition log_insert_update_delete :: "KeyModification list" where
  "log_insert_update_delete =
     [\<lparr>km_tx_id = ''tx1'', km_timestamp = (100, 0), km_is_delete = False, km_value = text_Alpha\<rparr>,
      \<lparr>km_tx_id = ''tx2'', km_timestamp = (200, 0), km_is_delete = False, km_value = text_Beta\<rparr>,
      \<lparr>km_tx_id = ''tx3'', km_timestamp = (300, 0), km_is_delete = True, km_value = []\<rparr>]"

definition deleted_entity :: stub where
  "deleted_entity = (ledger [])\<lparr>key_history := [(''entity001'', log_insert_update_delete)]\<rparr>"

text \<open>A key whose one recorded value is not JSON.\<close>

definition raw_history :: stub where
  "raw_history =
     (ledger [])\<lparr>key_history :=
        [(''entity001'',
          [\<lparr>km_tx_id = ''tx1'', km_timestamp = (100, 0), km_is_delete = False,
            km_value = ''not json''\<rparr>])]\<rparr>"

section \<open>The loops\<close>

declare scan_loop.simps [simp del] history_loop.simps [simp del]

lemma ByteBuffer_toString_nonempty [simp]: "ByteBuffer_toString v \<noteq> []"
  by (simp add: ByteBuffer_toString_def)

lemma scan_loop_fold:
  "scan_loop h q stub it acc =
     (case scan_fold h q it acc of
        Inl e \<Rightarrow> (Inl e, stub)
      | Inr r \<Rightarrow> (Inr r, iterator_close stub))"
proof (induction it arbitrary: acc)
  case Nil
  show ?case by (subst scan_loop.simps) (simp add: scan_result_def)
next
  case (Cons kv kvs)
  show ?case
  proof (cases kvs)
    case Nil
    then show ?thesis
      by (subst scan_loop.simps, subst scan_loop.simps)
         (simp add: scan_result_def Let_def split: sum.splits)
  next
    case (Cons kv' kvs')
    then show ?thesis
      using Cons.IH
      by (subst scan_loop.simps) (simp add: scan_result_def Let_def split: sum.splits)
  qed
qed

lemma history_loop_eq:
  "history_loop h stub it acc =
     (Inr (acc @ map (history_entry h) it), iterator_close stub)"
proof (induction it arbitrary: acc)
  case Nil
  show ?case by (subst history_loop.simps) (simp add: history_result_def)
next
  case (Cons m ms)
  show ?case
  proof (cases ms)
    case Nil
    then show ?thesis
      by (subst history_loop.simps, subst history_loop.simps)
         (simp add: history_result_def Let_def)
  next
    case (Cons m' ms')
    then show ?thesis
      using Cons.IH
      by (subst history_loop.simps) (simp add: history_result_def Let_def)
  qed
qed


section \<open>Every failure is a TypeError\<close>


lemma js_toString_error:
  "js_toString h x = Inl e \<Longrightarrow> e = TypeError"
  "elements_toString h xs = Inl e \<Longrightarrow> e = TypeError"
  by (induction h x and h xs arbitrary: e and e rule: js_toString_elements_toString.induct)
     (auto split: sum.splits if_splits)

lemma to_primitive_error: "to_primitive h x = Inl e \<Longrightarrow> e = TypeError"
  by (cases x) (auto split: sum.splits if_splits dest: js_toString_error)

lemma loose_eq_error: "loose_eq h x y = Inl e \<Longrightarrow> e = TypeError"
  by (auto simp: loose_eq_def split: if_splits sum.splits dest: to_primitive_error)

lemma js_get_error: "js_get h x k = Inl e \<Longrightarrow> e = TypeError"
  by (cases x) (auto split: if_splits option.splits)


lemma hasOwnProperty_error: "hasOwnProperty x k = Inl e \<Longrightarrow> e = TypeError"
  by (cases x) (auto split: if_splits)

lemma filter_fields_error:
  "filter_fields h sel jr ks acc = Inl e \<Longrightarrow> e = TypeError"
proof (induction ks arbitrary: acc)
  case Nil
  then show ?case by simp
next
  case (Cons k ks)
  then show ?case
    by (auto split: sum.splits if_splits bool.splits
        dest: js_get_error js_toString_error loose_eq_error hasOwnProperty_error)
qed



section \<open>What the filter appends\<close>

lemma filter_fields_Inr:
  assumes "filter_fields h (JObj sel) jr ks acc = Inr r"
    and "set ks \<subseteq> fst ` set sel"
  shows "r = acc @ replicate (length (filter (field_matches h (Record jr) (JObj sel))
                                  (filter (\<lambda>k. k \<noteq> ''docType'') ks))) jr"
  using assms
proof (induction ks arbitrary: acc)
  case Nil
  then show ?case by simp
next
  case (Cons k ks)
  from Cons.prems(2) obtain want where own: "map_of sel k = Some want"
    by (cases "map_of sel k") (auto simp: map_of_eq_None_iff)
  from Cons.prems(2) have sub: "set ks \<subseteq> fst ` set sel" by simp
  note IH = Cons.IH[OF _ sub]
  from Cons.prems(1) have h: "map_of sel ''hasOwnProperty'' = None"
    by (auto split: if_splits)
  show ?case
  proof (cases "k = ''docType''")
    case True
    with own h Cons.prems(1) have "filter_fields h (JObj sel) jr ks acc = Inr r"
      by (auto split: sum.splits)
    from IH[OF this] True show ?thesis by simp
  next
    case nd: False
    from own h nd Cons.prems(1) obtain found where f: "js_get h (Record jr) k = Inr found"
      by (cases "js_get h (Record jr) k") (auto split: sum.splits)
    show ?thesis
    proof (cases "truthy found \<and> loose_eq h found want = Inr True")
      case True
      with own h nd f Cons.prems(1)
      have "filter_fields h (JObj sel) jr ks (acc @ [jr]) = Inr r"
        by (auto split: sum.splits)
      from IH[OF this] True f own nd show ?thesis
        by (simp add: field_matches_def replicate_app_Cons_same)
    next
      case False
      with own h nd f Cons.prems(1)
      have "filter_fields h (JObj sel) jr ks acc = Inr r"
        by (auto split: sum.splits bool.splits if_splits)
      from IH[OF this] False f own nd show ?thesis
        by (auto simp add: field_matches_def)
    qed
  qed
qed

lemma scan_entry_Inr:
  assumes "js_get h q ''selector'' = Inr (JObj sel)"
    and "scan_entry h q kv acc = Inr r"
  shows "r = acc @ replicate (copies h sel kv) (query_result h kv)"
proof (cases "length sel = 1")
  case True
  with assms show ?thesis
    by (auto simp: scan_entry_def copies_def query_result_def)
next
  case False
  with assms have "filter_fields h (JObj sel) (query_result h kv) (map fst sel) acc = Inr r"
    by (simp add: scan_entry_def query_result_def)
  from filter_fields_Inr[OF this] False show ?thesis
    by (simp add: copies_def query_result_def)
qed

lemma scan_fold_Inr:
  assumes "js_get h q ''selector'' = Inr (JObj sel)"
    and "scan_fold h q kvs acc = Inr r"
  shows "r = acc @ concat (map (\<lambda>kv. replicate (copies h sel kv) (query_result h kv)) kvs)"
  using assms(2)
proof (induction kvs arbitrary: acc)
  case Nil
  then show ?case by simp
next
  case (Cons kv kvs)
  from Cons.prems obtain acc' where s: "scan_entry h q kv acc = Inr acc'"
    and f: "scan_fold h q kvs acc' = Inr r"
    by (auto split: sum.splits)
  from scan_entry_Inr[OF assms(1) s] Cons.IH[OF f] show ?case by simp
qed

section \<open>The range scan, and the query as a scan\<close>

lemma map_kv_key_range:
  "map kv_key (range_entries stub s e) =
     map fst (sort_key fst (filter (\<lambda>(k, v). in_range s e k) (AList.clearjunk (world stub))))"
  by (simp add: range_entries_def comp_def case_prod_unfold)

lemma sorted_range_entries: "sorted (map kv_key (range_entries stub s e))"
  unfolding map_kv_key_range by (rule sorted_sort_key)

lemma distinct_range_entries: "distinct (map kv_key (range_entries stub s e))"
proof -
  have "distinct (map fst (filter (\<lambda>(k, v). in_range s e k) (AList.clearjunk (world stub))))"
    by (rule distinct_map_filter) (rule distinct_clearjunk)
  then show ?thesis
    unfolding map_kv_key_range by (simp add: distinct_map)
qed

lemma range_entries_iff:
  "\<lparr>kv_key = k, kv_value = v\<rparr> \<in> set (range_entries stub s e)
     \<longleftrightarrow> map_of (world stub) k = Some v \<and> in_range s e k"
proof -
  have "\<lparr>kv_key = k, kv_value = v\<rparr> \<in> set (range_entries stub s e)
     \<longleftrightarrow> (k, v) \<in> set (AList.clearjunk (world stub)) \<and> in_range s e k"
    by (auto simp: range_entries_def)
  also have "(k, v) \<in> set (AList.clearjunk (world stub))
     \<longleftrightarrow> map_of (AList.clearjunk (world stub)) k = Some v"
    by (simp add: map_of_eq_Some_iff distinct_clearjunk)
  finally show ?thesis by (simp add: map_of_clearjunk)
qed

lemma queryByString_scan:
  assumes "JSON_parse h q = Some jq"
    and "js_get h jq ''selector'' = Inr sel"
    and "js_get h sel ''docType'' = Inr d"
    and "truthy sel" and "truthy d"
    and "js_toString h d = Inr t"
  shows "queryByString h stub q =
     scan_loop h jq (stub\<lparr>iterators_opened := Suc (iterators_opened stub)\<rparr>)
       (range_entries stub (t @ ''0'') (t @ ''z'')) []"
  using assms by (simp add: queryByString_def getStateByRange_def Let_def)



section \<open>What a query returns\<close>


lemma to_primitive_prints:
  "to_primitive h x = Inr p \<Longrightarrow> \<exists>s. js_toString h x = Inr s"
  by (cases x) (auto split: sum.splits if_splits)

lemma js_plus_string_prints:
  assumes "js_plus_string h a b = Inr r"
  shows "\<exists>s. js_toString h b = Inr s"
proof -
  from assms obtain pb where "to_primitive h b = Inr pb"
    by (auto simp: js_plus_string_def split: sum.splits)
  then show ?thesis by (rule to_primitive_prints)
qed

lemma queryHistoryForKey_eq:
  assumes "JSON_parse h args = Some json"
    and "js_get h json ''key'' = Inr key"
    and "js_get h json ''docType'' = Inr docType"
    and "js_plus_string h docType key = Inr (Some k)"
  shows "queryHistoryForKey h stub args =
     (Inr (map (history_entry h) (history_of stub k)),
      iterator_close (stub\<lparr>iterators_opened := Suc (iterators_opened stub)\<rparr>))"
proof -
  from js_plus_string_prints[OF assms(4)] obtain s where "js_toString h key = Inr s" by blast
  with assms show ?thesis
    by (simp add: queryHistoryForKey_def getHistoryForKey_def history_loop_eq)
qed

lemma key_query_result [simp]: "Key (query_result h kv) = kv_key kv"
  by (simp add: query_result_def)

lemma filter_key_concat_none:
  assumes "k \<notin> kv_key ` set kvs"
  shows "filter (\<lambda>e. Key e = k)
           (concat (map (\<lambda>kv. replicate (n kv) (query_result h kv)) kvs)) = []"
  using assms by (induction kvs) auto

lemma filter_key_concat:
  assumes "distinct (map kv_key kvs)" and "kv \<in> set kvs"
  shows "filter (\<lambda>e. Key e = kv_key kv)
           (concat (map (\<lambda>kv. replicate (n kv) (query_result h kv)) kvs))
         = replicate (n kv) (query_result h kv)"
  using assms
proof (induction kvs)
  case Nil
  then show ?case by simp
next
  case (Cons x xs)
  show ?case
  proof (cases "kv = x")
    case True
    from Cons.prems(1) have "kv_key x \<notin> kv_key ` set xs" by auto
    from filter_key_concat_none[OF this, of n h] True show ?thesis by simp
  next
    case False
    with Cons.prems have in_xs: "kv \<in> set xs" and d: "distinct (map kv_key xs)" by auto
    from Cons.prems(1) in_xs have "kv_key x \<noteq> kv_key kv" by auto
    with Cons.IH[OF d in_xs] show ?thesis by auto
  qed
qed

lemma queryByString_Inr:
  assumes p: "JSON_parse h q = Some jq"
    and s: "js_get h jq ''selector'' = Inr (JObj sel)"
    and d: "map_of sel ''docType'' = Some d"
    and r: "fst (queryByString h stub q) = Inr res"
  obtains t where "truthy d" and "js_toString h d = Inr t"
    and "res = concat (map (\<lambda>kv. replicate (copies h sel kv) (query_result h kv))
              (range_entries stub (t @ ''0'') (t @ ''z'')))"
    and "snd (queryByString h stub q) =
           iterator_close (stub\<lparr>iterators_opened := Suc (iterators_opened stub)\<rparr>)"
proof -
  from d have g: "js_get h (JObj sel) ''docType'' = Inr d" by simp
  have t: "truthy d"
  proof (rule ccontr)
    assume "\<not> truthy d"
    with p s g have "fst (queryByString h stub q) = Inl (MissingDocType q)"
      by (simp add: queryByString_def)
    with r show False by simp
  qed
  obtain t where pt: "js_toString h d = Inr t"
  proof (cases "js_toString h d")
    case (Inl e)
    with p s g t have "fst (queryByString h stub q) = Inl e"
      by (simp add: queryByString_def)
    with r show ?thesis by simp
  next
    case (Inr t)
    then show ?thesis by (rule that)
  qed
  let ?stub = "stub\<lparr>iterators_opened := Suc (iterators_opened stub)\<rparr>"
  let ?it = "range_entries stub (t @ ''0'') (t @ ''z'')"
  have q: "queryByString h stub q = scan_loop h jq ?stub ?it []"
    by (rule queryByString_scan[OF p s g _ t pt]) simp
  with r obtain r' where f: "scan_fold h jq ?it [] = Inr r'"
    by (cases "scan_fold h jq ?it []") (auto simp: scan_loop_fold)
  with q r have "r' = res" by (simp add: scan_loop_fold)
  with scan_fold_Inr[OF s f]
  have 1: "res = concat (map (\<lambda>kv. replicate (copies h sel kv) (query_result h kv)) ?it)"
    by simp
  from q f have 2: "snd (queryByString h stub q) = iterator_close ?stub"
    by (simp add: scan_loop_fold)
  from t pt 1 2 show ?thesis by (rule that)
qed

lemma queryByString_count:
  assumes p: "JSON_parse h q = Some jq"
    and s: "js_get h jq ''selector'' = Inr (JObj sel)"
    and d: "map_of sel ''docType'' = Some d"
    and r: "fst (queryByString h stub q) = Inr res"
    and t: "js_toString h d = Inr t"
    and m: "kv \<in> set (range_entries stub (t @ ''0'') (t @ ''z''))"
  shows "filter (\<lambda>e. Key e = kv_key kv) res = replicate (copies h sel kv) (query_result h kv)"
proof -
  from queryByString_Inr[OF p s d r] t
  have "res = concat (map (\<lambda>kv. replicate (copies h sel kv) (query_result h kv))
              (range_entries stub (t @ ''0'') (t @ ''z'')))"
    by auto
  then show ?thesis
    using filter_key_concat[OF distinct_range_entries m] by simp
qed



section \<open>Point lookup\<close>

text \<open>
  C9: \<open>queryByKey\<close> fails exactly when the world state has no value for the key or an
  empty one, and then with the error that the key does not exist; a key with a non-empty
  value gives back that value unchanged.
\<close>

theorem queryByKey_not_found_iff:
  "((\<exists>e. queryByKey stub key = Inl e) \<longleftrightarrow>
      (map_of (world stub) key = None \<or> map_of (world stub) key = Some []))
   \<and> (\<forall>e. queryByKey stub key = Inl e \<longrightarrow> e = KeyDoesNotExist key)
   \<and> (\<forall>v. map_of (world stub) key = Some v \<and> v \<noteq> [] \<longrightarrow> queryByKey stub key = Inr v)"
  by (auto simp: queryByKey_def getState_def split: option.splits)

theorem queryByKey_not_found_iff_witness:
  "(\<exists>e. queryByKey two_entities ''entity999'' = Inl e)
   \<and> map_of (world two_entities) ''entity999'' = None
   \<and> queryByKey two_entities ''entity999'' = Inl (KeyDoesNotExist ''entity999'')
   \<and> map_of (world two_entities) ''entity001'' = Some text_Alpha \<and> text_Alpha \<noteq> []
   \<and> queryByKey two_entities ''entity001'' = Inr text_Alpha"
proof -
  have a: "map_of (world two_entities) ''entity999'' = None"
    by (simp add: two_entities_def ledger_def)
  have b: "map_of (world two_entities) ''entity001'' = Some text_Alpha"
    by (simp add: two_entities_def ledger_def)
  have c: "text_Alpha \<noteq> []" by (simp add: text_Alpha_def)
  from queryByKey_not_found_iff[of two_entities "''entity999''"] a
  have 1: "\<exists>e. queryByKey two_entities ''entity999'' = Inl e"
    and 2: "\<forall>e. queryByKey two_entities ''entity999'' = Inl e \<longrightarrow> e = KeyDoesNotExist ''entity999''"
    by blast+
  from 1 2 have 3: "queryByKey two_entities ''entity999'' = Inl (KeyDoesNotExist ''entity999'')"
    by blast
  from queryByKey_not_found_iff[of two_entities "''entity001''"] b c
  have 4: "queryByKey two_entities ''entity001'' = Inr text_Alpha" by blast
  from 1 a 3 b c 4 show ?thesis by blast
qed

section \<open>Creating an entry\<close>

lemma js_get_update_docType:
  assumes "k \<noteq> ''docType''"
  shows "js_get h (JObj (AList.update ''docType'' v kvs)) k = js_get h (JObj kvs) k"
  using assms by (simp add: update_conv' member_def split: option.splits)

lemma createEntry_failure_writes_nothing:
  "fst (createEntry h stub args) = Inl e \<Longrightarrow> snd (createEntry h stub args) = stub"
  by (auto simp: createEntry_def Let_def split: option.splits sum.splits if_splits)


text \<open>
  C8, as the code has it: when the arguments of \<open>createEntry\<close> are the text of an
  object whose \<^verbatim>\<open>entryId\<close> and \<^verbatim>\<open>entityRegistrationNumber\<close> convert to text, and the
  registration number names no entity of the world state (the entity key reads as
  empty), the call fails with the error that the entity does not exist and leaves the
  stub as it was: nothing is added to the write set. No failing call writes.
\<close>

theorem createEntry_without_entity:
  assumes "JSON_parse h args = Some (JObj kvs)"
    and "js_get h (JObj kvs) ''entryId'' = Inr entryId"
    and "js_toString h entryId = Inr entryText"
    and "js_get h (JObj kvs) ''entityRegistrationNumber'' = Inr regNo"
    and "js_toString h regNo = Inr regText"
    and "getState stub (''entity'' @ regText) = []"
  shows "createEntry h stub args = (Inl (EntityDoesNotExist regText), stub)
     \<and> (\<forall>args' e. fst (createEntry h stub args') = Inl e
           \<longrightarrow> snd (createEntry h stub args') = stub)"
proof
  have "js_get h (JObj (AList.update ''docType'' (JStr ''entry'') kvs))
      ''entityRegistrationNumber'' = Inr regNo"
    using assms(4) by (simp add: js_get_update_docType del: js_get.simps)
  with assms(1,2,3,5,6)
  show "createEntry h stub args = (Inl (EntityDoesNotExist regText), stub)"
    by (simp add: createEntry_def Let_def del: js_get.simps)
  show "\<forall>args' e. fst (createEntry h stub args') = Inl e
           \<longrightarrow> snd (createEntry h stub args') = stub"
    by (blast intro: createEntry_failure_writes_nothing)
qed

theorem createEntry_without_entity_witness:
  "JSON_parse example_host text_entry_args
     = Some (JObj [(''entryId'', JStr ''1''), (''entityRegistrationNumber'', JStr ''999'')])
   \<and> getState two_entities ''entity999'' = []
   \<and> createEntry example_host two_entities text_entry_args
       = (Inl (EntityDoesNotExist ''999''), two_entities)
   \<and> fst (createEntry example_host two_entities ''null'') = Inl TypeError
   \<and> snd (createEntry example_host two_entities ''null'') = two_entities"
proof -
  let ?json = "[(''entryId'', JStr ''1''), (''entityRegistrationNumber'', JStr ''999'')]"
  have p: "JSON_parse example_host text_entry_args = Some (JObj ?json)"
    by code_simp
  have i: "js_get example_host (JObj ?json) ''entryId'' = Inr (JStr ''1'')" by simp
  have it: "js_toString example_host (JStr ''1'') = Inr ''1''" by simp
  have g: "js_get example_host (JObj ?json) ''entityRegistrationNumber'' = Inr (JStr ''999'')"
    by simp
  have gt: "js_toString example_host (JStr ''999'') = Inr ''999''" by simp
  have s: "getState two_entities (''entity'' @ ''999'') = []"
    by (simp add: getState_def two_entities_def ledger_def)
  have n: "fst (createEntry example_host two_entities ''null'') = Inl TypeError"
    by code_simp
  note t = createEntry_without_entity[OF p i it g gt s]
  from t have 1: "createEntry example_host two_entities text_entry_args
       = (Inl (EntityDoesNotExist ''999''), two_entities)" by blast
  from t n have 2: "snd (createEntry example_host two_entities ''null'') = two_entities"
    by blast
  from p s 1 n 2 show ?thesis by simp
qed


text \<open>
  The claim as the specification words it (every call that names no entity fails with
  the parent-not-found error) fails when the \<^verbatim>\<open>entryId\<close> is an object with a property
  \<^verbatim>\<open>toString\<close> of its own: building the entry key is a TypeError, raised before the
  entity is looked up.
\<close>

theorem createEntry_TypeError_before_entity_check:
  "JSON_parse example_host text_entry_args_object_id
     = Some (JObj [(''entryId'', JObj [(''toString'', JNum 1)]),
                   (''entityRegistrationNumber'', JStr ''999'')])
   \<and> getState two_entities ''entity999'' = []
   \<and> createEntry example_host two_entities text_entry_args_object_id
       = (Inl TypeError, two_entities)"
  by code_simp


section \<open>The history of a key\<close>

text \<open>
  C1: for arguments that name the key \<open>k\<close>, \<open>queryHistoryForKey\<close> returns one entry for
  every record of the change log of \<open>k\<close>, in the order of the log, and each entry
  carries the transaction id, the timestamp and the printed deletion flag of its record,
  with the decoded value (or the raw text). A log of an insert, an update and a delete
  gives three entries, flagged false, false, true.
\<close>

theorem history_one_entry_per_record:
  assumes "JSON_parse h args = Some json"
    and "js_get h json ''key'' = Inr key"
    and "js_get h json ''docType'' = Inr docType"
    and "js_plus_string h docType key = Inr (Some k)"
  shows "\<exists>res. fst (queryHistoryForKey h stub args) = Inr res
     \<and> length res = length (history_of stub k)
     \<and> map TxId res = map km_tx_id (history_of stub k)
     \<and> map Timestamp res = map km_timestamp (history_of stub k)
     \<and> map IsDelete res = map (\<lambda>m. if km_is_delete m then ''true'' else ''false'')
                             (history_of stub k)
     \<and> map HRecord res = map (\<lambda>m. parse_or_raw h (km_value m)) (history_of stub k)
     \<and> (map km_is_delete (history_of stub k) = [False, False, True]
          \<longrightarrow> length res = 3 \<and> map IsDelete res = [''false'', ''false'', ''true''])"
proof -
  let ?res = "map (history_entry h) (history_of stub k)"
  have r: "fst (queryHistoryForKey h stub args) = Inr ?res"
    by (simp add: queryHistoryForKey_eq[OF assms])
  have f: "map IsDelete ?res = map (\<lambda>m. if km_is_delete m then ''true'' else ''false'')
                             (history_of stub k)"
    by (simp add: history_entry_def comp_def)
  have "map km_is_delete (history_of stub k) = [False, False, True]
          \<longrightarrow> length ?res = 3 \<and> map IsDelete ?res = [''false'', ''false'', ''true'']"
  proof
    assume a: "map km_is_delete (history_of stub k) = [False, False, True]"
    then have "length (map km_is_delete (history_of stub k)) = 3" by simp
    then have l: "length ?res = 3" by simp
    have "map (\<lambda>m. if km_is_delete m then ''true'' else ''false'') (history_of stub k)
        = map (\<lambda>b. if b then ''true'' else ''false'') (map km_is_delete (history_of stub k))"
      by (simp add: comp_def)
    with a f have "map IsDelete ?res = [''false'', ''false'', ''true'']" by simp
    with l show "length ?res = 3 \<and> map IsDelete ?res = [''false'', ''false'', ''true'']"
      by simp
  qed
  with r f show ?thesis
    by (intro exI[of _ ?res]) (simp add: history_entry_def comp_def)
qed

theorem history_one_entry_per_record_witness:
  "history_of deleted_entity ''entity001'' = log_insert_update_delete
   \<and> map km_is_delete log_insert_update_delete = [False, False, True]
   \<and> (\<exists>res. fst (queryHistoryForKey example_host deleted_entity text_history_args) = Inr res
     \<and> length res = 3
     \<and> map TxId res = [''tx1'', ''tx2'', ''tx3'']
     \<and> map Timestamp res = [(100, 0), (200, 0), (300, 0)]
     \<and> map IsDelete res = [''false'', ''false'', ''true''])"
proof -
  let ?json = "JObj [(''key'', JStr ''001''), (''docType'', JStr ''entity'')]"
  have p: "JSON_parse example_host text_history_args = Some ?json"
    by code_simp
  have k: "js_get example_host ?json ''key'' = Inr (JStr ''001'')" by simp
  have d: "js_get example_host ?json ''docType'' = Inr (JStr ''entity'')" by simp
  have c: "js_plus_string example_host (JStr ''entity'') (JStr ''001'') = Inr (Some ''entity001'')"
    by (simp add: js_plus_string_def)
  have l: "history_of deleted_entity ''entity001'' = log_insert_update_delete"
    by code_simp
  have f: "map km_is_delete log_insert_update_delete = [False, False, True]"
    by (simp add: log_insert_update_delete_def)
  from history_one_entry_per_record[OF p k d c, of deleted_entity] l f
  have "\<exists>res. fst (queryHistoryForKey example_host deleted_entity text_history_args) = Inr res
     \<and> length res = 3
     \<and> map TxId res = map km_tx_id log_insert_update_delete
     \<and> map Timestamp res = map km_timestamp log_insert_update_delete
     \<and> map IsDelete res = [''false'', ''false'', ''true'']"
    by auto
  with l f show ?thesis
    by (simp add: log_insert_update_delete_def)
qed

section \<open>Closing the iterator\<close>

lemma queryByString_stub:
  "(\<forall>res. fst (queryByString h stub q) = Inr res \<longrightarrow>
      snd (queryByString h stub q) =
        iterator_close (stub\<lparr>iterators_opened := Suc (iterators_opened stub)\<rparr>))
   \<and> (\<forall>e. fst (queryByString h stub q) = Inl e \<longrightarrow>
      snd (queryByString h stub q) = stub
      \<or> snd (queryByString h stub q) = stub\<lparr>iterators_opened := Suc (iterators_opened stub)\<rparr>)"
  by (auto simp: queryByString_def getStateByRange_def scan_loop_fold Let_def
      split: option.splits sum.splits)

lemma queryHistoryForKey_stub:
  "(\<forall>res. fst (queryHistoryForKey h stub args) = Inr res \<longrightarrow>
      snd (queryHistoryForKey h stub args) =
        iterator_close (stub\<lparr>iterators_opened := Suc (iterators_opened stub)\<rparr>))
   \<and> (\<forall>e. fst (queryHistoryForKey h stub args) = Inl e \<longrightarrow>
      snd (queryHistoryForKey h stub args) = stub)"
  by (auto simp: queryHistoryForKey_def getHistoryForKey_def history_loop_eq Let_def
      split: option.splits sum.splits)


text \<open>
  C4, as the code has it: a call of \<open>queryByString\<close> or \<open>queryHistoryForKey\<close> that
  returns its list, of however many entries, has opened one iterator and closed it once.
  A call that fails closes nothing: there is no handler around the loops, so a failure
  raised while iterating leaves the iterator open.
\<close>

theorem iterator_closed_when_returning:
  "(fst (queryByString h stub q) = Inr res \<longrightarrow>
      iterators_opened (snd (queryByString h stub q)) = Suc (iterators_opened stub)
      \<and> iterators_closed (snd (queryByString h stub q)) = Suc (iterators_closed stub))
   \<and> (fst (queryHistoryForKey h hstub args) = Inr hist \<longrightarrow>
      iterators_opened (snd (queryHistoryForKey h hstub args)) = Suc (iterators_opened hstub)
      \<and> iterators_closed (snd (queryHistoryForKey h hstub args)) = Suc (iterators_closed hstub))
   \<and> (fst (queryByString h stub q) = Inl e \<longrightarrow>
      iterators_closed (snd (queryByString h stub q)) = iterators_closed stub)
   \<and> (fst (queryHistoryForKey h hstub args) = Inl e' \<longrightarrow>
      iterators_closed (snd (queryHistoryForKey h hstub args)) = iterators_closed hstub)"
  using queryByString_stub[of h stub q] queryHistoryForKey_stub[of h hstub args]
  by (auto simp: iterator_close_def)

theorem iterator_closed_when_returning_witness:
  "fst (queryByString example_host two_entities text_all_entities)
     = Inr [\<lparr>Key = ''entity001'', Record = value_Alpha\<rparr>, \<lparr>Key = ''entity002'', Record = value_Beta\<rparr>]
   \<and> iterators_opened (snd (queryByString example_host two_entities text_all_entities)) = 1
   \<and> iterators_closed (snd (queryByString example_host two_entities text_all_entities)) = 1
   \<and> fst (queryHistoryForKey example_host two_entities text_history_args) = Inr []
   \<and> iterators_opened (snd (queryHistoryForKey example_host two_entities text_history_args)) = 1
   \<and> iterators_closed (snd (queryHistoryForKey example_host two_entities text_history_args)) = 1
   \<and> fst (queryByString example_host with_null_value text_entities_named_Alpha) = Inl TypeError
   \<and> iterators_closed (snd (queryByString example_host with_null_value text_entities_named_Alpha)) = 0
   \<and> fst (queryHistoryForKey example_host two_entities ''null'') = Inl TypeError
   \<and> iterators_closed (snd (queryHistoryForKey example_host two_entities ''null'')) = 0"
proof -
  have a: "fst (queryByString example_host two_entities text_all_entities)
     = Inr [\<lparr>Key = ''entity001'', Record = value_Alpha\<rparr>, \<lparr>Key = ''entity002'', Record = value_Beta\<rparr>]"
    by code_simp
  have b: "fst (queryHistoryForKey example_host two_entities text_history_args) = Inr []"
    by code_simp
  have c: "fst (queryByString example_host with_null_value text_entities_named_Alpha) = Inl TypeError"
    by code_simp
  have d: "fst (queryHistoryForKey example_host two_entities ''null'') = Inl TypeError"
    by code_simp
  have z: "iterators_opened two_entities = 0" "iterators_closed two_entities = 0"
    "iterators_closed with_null_value = 0"
    by (simp_all add: two_entities_def with_null_value_def ledger_def)
  from iterator_closed_when_returning[of example_host two_entities text_all_entities _
      two_entities text_history_args] a b z
  have 1: "iterators_opened (snd (queryByString example_host two_entities text_all_entities)) = 1"
    "iterators_closed (snd (queryByString example_host two_entities text_all_entities)) = 1"
    "iterators_opened (snd (queryHistoryForKey example_host two_entities text_history_args)) = 1"
    "iterators_closed (snd (queryHistoryForKey example_host two_entities text_history_args)) = 1"
    by simp_all
  from iterator_closed_when_returning[of example_host with_null_value text_entities_named_Alpha _
      two_entities "''null''" _ TypeError TypeError] c d z
  have 2: "iterators_closed (snd (queryByString example_host with_null_value text_entities_named_Alpha)) = 0"
    "iterators_closed (snd (queryHistoryForKey example_host two_entities ''null'')) = 0"
    by simp_all
  from a b c d 1 2 show ?thesis by simp
qed


text \<open>
  The claim as the specification words it (closed exactly once also on a failure during
  the iteration) fails when a scanned value decodes to \<^verbatim>\<open>null\<close> under a selector with a
  second field: reading the field is a TypeError, and the iterator stays open.
\<close>

theorem iterator_left_open_on_failure:
  "fst (queryByString example_host with_null_value text_entities_named_Alpha) = Inl TypeError
   \<and> iterators_opened (snd (queryByString example_host with_null_value text_entities_named_Alpha)) = 1
   \<and> iterators_closed (snd (queryByString example_host with_null_value text_entities_named_Alpha)) = 0"
  by code_simp




section \<open>A selector with nothing but the docType\<close>

lemma scan_fold_single:
  assumes "js_get h jq ''selector'' = Inr (JObj [(f, d)])"
  shows "scan_fold h jq kvs acc = Inr (acc @ map (query_result h) kvs)"
  using assms
  by (induction kvs arbitrary: acc) (simp_all add: scan_entry_def query_result_def)

lemma queryByString_single:
  assumes "JSON_parse h q = Some jq"
    and "js_get h jq ''selector'' = Inr (JObj [(''docType'', d)])"
    and "truthy d"
    and "js_toString h d = Inr t"
  shows "queryByString h stub q =
     (Inr (map (query_result h) (range_entries stub (t @ ''0'') (t @ ''z''))),
      iterator_close (stub\<lparr>iterators_opened := Suc (iterators_opened stub)\<rparr>))"
proof -
  have g: "js_get h (JObj [(''docType'', d)]) ''docType'' = Inr d" by simp
  show ?thesis
    unfolding queryByString_scan[OF assms(1,2) g _ assms(3,4), simplified]
    by (simp add: scan_loop_fold scan_fold_single[OF assms(2)])
qed


text \<open>
  C3, as the code has it: under a selector whose only field is a \<open>docType\<close> that is
  truthy and converts to text, \<open>queryByString\<close> scans the keys
  \<open>docType + "0" \<le> k < docType + "z"\<close> of the world state and returns, with no test of
  the record, the entry of every scanned key: the key and the decoded value, in
  ascending order of the keys.
\<close>

theorem docType_only_scan:
  assumes "JSON_parse h q = Some jq"
    and "js_get h jq ''selector'' = Inr (JObj [(''docType'', d)])"
    and "truthy d"
    and "js_toString h d = Inr t"
  shows "\<exists>res. fst (queryByString h stub q) = Inr res
     \<and> res = map (\<lambda>kv. \<lparr>Key = kv_key kv, Record = parse_or_raw h (kv_value kv)\<rparr>)
               (range_entries stub (t @ ''0'') (t @ ''z''))
     \<and> sorted (map Key res) \<and> distinct (map Key res)
     \<and> (\<forall>k v. \<lparr>kv_key = k, kv_value = v\<rparr> \<in> set (range_entries stub (t @ ''0'') (t @ ''z''))
               \<longleftrightarrow> map_of (world stub) k = Some v \<and> t @ ''0'' \<le> k \<and> k < t @ ''z'')"
proof -
  let ?it = "range_entries stub (t @ ''0'') (t @ ''z'')"
  let ?res = "map (query_result h) ?it"
  have r: "fst (queryByString h stub q) = Inr ?res"
    by (simp add: queryByString_single[OF assms])
  have e: "?res = map (\<lambda>kv. \<lparr>Key = kv_key kv, Record = parse_or_raw h (kv_value kv)\<rparr>) ?it"
    by (simp add: query_result_def)
  have k: "map Key ?res = map kv_key ?it"
    by (simp add: comp_def)
  have s: "sorted (map Key ?res)"
    unfolding k by (rule sorted_range_entries)
  have d: "distinct (map Key ?res)"
    unfolding k by (rule distinct_range_entries)
  have m: "\<forall>k v. \<lparr>kv_key = k, kv_value = v\<rparr> \<in> set ?it
               \<longleftrightarrow> map_of (world stub) k = Some v \<and> t @ ''0'' \<le> k \<and> k < t @ ''z''"
    by (simp add: range_entries_iff in_range_def)
  from r e s d m show ?thesis by blast
qed

theorem docType_only_scan_witness:
  "\<exists>res. fst (queryByString example_host two_entities text_all_entities) = Inr res
     \<and> res = [\<lparr>Key = ''entity001'', Record = value_Alpha\<rparr>, \<lparr>Key = ''entity002'', Record = value_Beta\<rparr>]
     \<and> sorted (map Key res) \<and> distinct (map Key res)
     \<and> \<lparr>kv_key = ''entity002'', kv_value = text_Beta\<rparr> \<in> set (range_entries two_entities ''entity0'' ''entityz'')"
proof -
  let ?jq = "JObj [(''selector'', JObj [(''docType'', JStr ''entity'')])]"
  have p: "JSON_parse example_host text_all_entities = Some ?jq" by code_simp
  have s: "js_get example_host ?jq ''selector'' = Inr (JObj [(''docType'', JStr ''entity'')])"
    by simp
  have t: "truthy (JStr ''entity'')" by simp
  have pt: "js_toString example_host (JStr ''entity'') = Inr ''entity''" by simp
  have l: "map (\<lambda>kv. \<lparr>Key = kv_key kv, Record = parse_or_raw example_host (kv_value kv)\<rparr>)
               (range_entries two_entities (''entity'' @ ''0'') (''entity'' @ ''z''))
           = [\<lparr>Key = ''entity001'', Record = value_Alpha\<rparr>, \<lparr>Key = ''entity002'', Record = value_Beta\<rparr>]"
    by code_simp
  have w: "map_of (world two_entities) ''entity002'' = Some text_Beta" by code_simp
  have o: "''entity0'' \<le> ''entity002'' \<and> ''entity002'' < ''entityz''" by code_simp
  from docType_only_scan[OF p s t pt, of two_entities] w o show ?thesis
    unfolding l by auto
qed


text \<open>
  The claim as the specification words it (every selector whose only field is
  \<open>docType\<close> is scanned) fails when the \<open>docType\<close> is the empty string, which raises
  the missing-docType error, and when it is an object with a property \<^verbatim>\<open>toString\<close> of its
  own, whose conversion to text is a TypeError: neither call opens a scan.
\<close>

theorem docType_only_selector_without_scan:
  "JSON_parse example_host text_empty_docType
     = Some (JObj [(''selector'', JObj [(''docType'', JStr [])])])
   \<and> queryByString example_host two_entities text_empty_docType
       = (Inl (MissingDocType text_empty_docType), two_entities)
   \<and> JSON_parse example_host text_object_docType
       = Some (JObj [(''selector'', JObj [(''docType'', JObj [(''toString'', JNum 1)])])])
   \<and> queryByString example_host two_entities text_object_docType
       = (Inl TypeError, two_entities)"
  by code_simp

section \<open>Entries without a value\<close>







section \<open>The missing docType\<close>








section \<open>The filter of the scan\<close>











section \<open>Values that do not decode\<close>

lemma js_get_string_plain: "\<exists>x. js_get h (JStr s) k = Inr x \<and> plain x"
  by (auto simp: member_def split: option.splits)

lemma plain_prints: "plain x \<Longrightarrow> \<exists>s. js_toString h x = Inr s"
  by (cases x) auto

lemma plain_to_primitive: "plain x \<Longrightarrow> \<exists>p. to_primitive h x = Inr p"
  by (cases x) auto

lemma prints_to_primitive: "js_toString h y = Inr s \<Longrightarrow> \<exists>p. to_primitive h y = Inr p"
  by (cases y) (auto split: sum.splits)

lemma loose_eq_returns:
  assumes "plain x" and "js_toString h y = Inr s"
  shows "\<exists>b. loose_eq h x y = Inr b"
proof -
  from plain_to_primitive[OF assms(1)] obtain px where "to_primitive h x = Inr px" by blast
  moreover from prints_to_primitive[OF assms(2)] obtain py where "to_primitive h y = Inr py"
    by blast
  ultimately show ?thesis by (auto simp: loose_eq_def)
qed

lemma filter_fields_fails_for_all:
  assumes "filter_fields h sel \<lparr>Key = k, Record = JStr s\<rparr> ks acc = Inl e"
  shows "filter_fields h sel jr ks acc' = Inl e"
proof -
  have "\<exists>e'. filter_fields h sel jr ks acc' = Inl e'"
    using assms
  proof (induction ks arbitrary: acc acc')
    case Nil
    then show ?case by simp
  next
    case (Cons key ks)
    let ?raw = "\<lparr>Key = k, Record = JStr s\<rparr>"
    show ?case
    proof (cases "hasOwnProperty sel key")
      case (Inl e1)
      then show ?thesis by simp
    next
      case own: (Inr b)
      show ?thesis
      proof (cases b)
        case False
        with own Cons.prems Cons.IH show ?thesis by simp
      next
        case True
        show ?thesis
        proof (cases "js_get h sel key")
          case (Inl e1)
          with own True show ?thesis by simp
        next
          case want: (Inr want)
          show ?thesis
          proof (cases "js_toString h want")
            case (Inl e1)
            with own True want show ?thesis by simp
          next
            case logged: (Inr logged)
            show ?thesis
            proof (cases "key = ''docType''")
              case dt: True
              with own True want logged Cons.prems Cons.IH show ?thesis by simp
            next
              case nd: False
              from js_get_string_plain obtain x where x: "js_get h (JStr s) key = Inr x"
                and px: "plain x" by blast
              from plain_prints[OF px] obtain sx where sx: "js_toString h x = Inr sx" by blast
              from loose_eq_returns[OF px logged] obtain b' where b': "loose_eq h x want = Inr b'"
                by blast
              from own True want logged nd x sx b' Cons.prems
              obtain acc1 where rest: "filter_fields h sel ?raw ks acc1 = Inl e"
                by (cases "truthy x"; cases b') (auto simp del: js_get.simps)
              note IH = Cons.IH[OF rest]
              from own True want logged nd IH show ?thesis
                by (auto split: sum.splits bool.splits simp del: js_get.simps)
            qed
          qed
        qed
      qed
    qed
  qed
  then obtain e' where e': "filter_fields h sel jr ks acc' = Inl e'" by blast
  from filter_fields_error[OF e'] filter_fields_error[OF assms] e' show ?thesis by simp
qed

lemma scan_entry_fails_for_all:
  assumes "JSON_parse h (kv_value kv) = None"
    and "scan_entry h jq kv acc = Inl e"
  shows "scan_entry h jq kv' acc' = Inl e"
proof (cases "js_get h jq ''selector''")
  case (Inl e1)
  with assms(2) show ?thesis by (simp add: scan_entry_def)
next
  case sel: (Inr sel)
  show ?thesis
  proof (cases "Object_keys sel")
    case (Inl e1)
    with sel assms(2) show ?thesis by (simp add: scan_entry_def)
  next
    case (Inr ks)
    with sel assms have "length ks \<noteq> 1"
      by (auto simp: scan_entry_def)
    with sel Inr assms
    have "filter_fields h sel \<lparr>Key = kv_key kv, Record = JStr (kv_value kv)\<rparr>
            (for_in_keys sel) acc = Inl e"
      by (simp add: scan_entry_def parse_or_raw_def)
    from filter_fields_fails_for_all[OF this] sel Inr \<open>length ks \<noteq> 1\<close> show ?thesis
      by (simp add: scan_entry_def)
  qed
qed


text \<open>
  C7, as the code has it: a scanned or recorded value that does not decode never ends
  the call, and its text stands where the decoded record would. The entry with that text
  is in the result of a scan under a selector with \<open>docType\<close> only, and in the history.
  Under a selector with more fields, in a scan that returns, the filter is applied to the
  text: the entries of the result for its key are one copy for each field that the text
  satisfies, and the entries for every other scanned key are the copies its own record
  earns. When the step of the scan fails at such a value, it fails at every value: the
  failure comes from the selector, not from the text.
\<close>

theorem raw_value_in_place_of_record:
  "(JSON_parse h q = Some jq \<and> js_get h jq ''selector'' = Inr (JObj [(''docType'', d)])
      \<and> truthy d \<and> js_toString h d = Inr t
      \<and> kv \<in> set (range_entries stub (t @ ''0'') (t @ ''z''))
      \<and> JSON_parse h (kv_value kv) = None
    \<longrightarrow> (\<exists>res. fst (queryByString h stub q) = Inr res
          \<and> \<lparr>Key = kv_key kv, Record = JStr (kv_value kv)\<rparr> \<in> set res))
   \<and> (JSON_parse h args = Some json \<and> js_get h json ''key'' = Inr key
      \<and> js_get h json ''docType'' = Inr docType \<and> js_plus_string h docType key = Inr (Some k)
      \<and> m \<in> set (history_of hstub k) \<and> JSON_parse h (km_value m) = None
    \<longrightarrow> (\<exists>hist. fst (queryHistoryForKey h hstub args) = Inr hist
          \<and> \<lparr>TxId = km_tx_id m, Timestamp = km_timestamp m,
              IsDelete = (if km_is_delete m then ''true'' else ''false''),
              HRecord = JStr (km_value m)\<rparr> \<in> set hist))
   \<and> (JSON_parse h q' = Some jq' \<and> js_get h jq' ''selector'' = Inr (JObj sel)
      \<and> map_of sel ''docType'' = Some d' \<and> js_toString h d' = Inr t'
      \<and> fst (queryByString h stub' q') = Inr res'
      \<and> kv' \<in> set (range_entries stub' (t' @ ''0'') (t' @ ''z''))
      \<and> JSON_parse h (kv_value kv') = None
    \<longrightarrow> filter (\<lambda>e. Key e = kv_key kv') res' =
          replicate
            (if length sel = 1 then 1
             else length (filter (field_matches h (JStr (kv_value kv')) (JObj sel))
                            (filter (\<lambda>k. k \<noteq> ''docType'') (map fst sel))))
            \<lparr>Key = kv_key kv', Record = JStr (kv_value kv')\<rparr>
        \<and> (\<forall>other \<in> set (range_entries stub' (t' @ ''0'') (t' @ ''z'')).
              filter (\<lambda>e. Key e = kv_key other) res' =
              replicate (copies h sel other)
                \<lparr>Key = kv_key other, Record = parse_or_raw h (kv_value other)\<rparr>))
   \<and> (JSON_parse h (kv_value raw) = None \<and> scan_entry h jq'' raw acc = Inl e
    \<longrightarrow> (\<forall>other acc'. scan_entry h jq'' other acc' = Inl e))"
  (is "?scan \<and> ?history \<and> ?filtered \<and> ?failure")
proof -
  have c1: ?scan
  proof
    assume a: "JSON_parse h q = Some jq \<and> js_get h jq ''selector'' = Inr (JObj [(''docType'', d)])
      \<and> truthy d \<and> js_toString h d = Inr t
      \<and> kv \<in> set (range_entries stub (t @ ''0'') (t @ ''z''))
      \<and> JSON_parse h (kv_value kv) = None"
    let ?it = "range_entries stub (t @ ''0'') (t @ ''z'')"
    from a have r: "fst (queryByString h stub q) = Inr (map (query_result h) ?it)"
      by (simp add: queryByString_single)
    from a have "query_result h kv = \<lparr>Key = kv_key kv, Record = JStr (kv_value kv)\<rparr>"
      by (simp add: query_result_def parse_or_raw_def)
    moreover from a have "query_result h kv \<in> set (map (query_result h) ?it)"
      by simp
    ultimately show "\<exists>res. fst (queryByString h stub q) = Inr res
          \<and> \<lparr>Key = kv_key kv, Record = JStr (kv_value kv)\<rparr> \<in> set res"
      using r by auto
  qed
  have c2: ?history
  proof
    assume a: "JSON_parse h args = Some json \<and> js_get h json ''key'' = Inr key
      \<and> js_get h json ''docType'' = Inr docType \<and> js_plus_string h docType key = Inr (Some k)
      \<and> m \<in> set (history_of hstub k) \<and> JSON_parse h (km_value m) = None"
    let ?log = "history_of hstub k"
    from a have r: "fst (queryHistoryForKey h hstub args) = Inr (map (history_entry h) ?log)"
      by (simp add: queryHistoryForKey_eq)
    from a have "history_entry h m = \<lparr>TxId = km_tx_id m, Timestamp = km_timestamp m,
              IsDelete = (if km_is_delete m then ''true'' else ''false''),
              HRecord = JStr (km_value m)\<rparr>"
      by (simp add: history_entry_def parse_or_raw_def)
    moreover from a have "history_entry h m \<in> set (map (history_entry h) ?log)"
      by simp
    ultimately show "\<exists>hist. fst (queryHistoryForKey h hstub args) = Inr hist
          \<and> \<lparr>TxId = km_tx_id m, Timestamp = km_timestamp m,
              IsDelete = (if km_is_delete m then ''true'' else ''false''),
              HRecord = JStr (km_value m)\<rparr> \<in> set hist"
      using r by auto
  qed
  have c3: ?filtered
  proof
    assume a: "JSON_parse h q' = Some jq' \<and> js_get h jq' ''selector'' = Inr (JObj sel)
      \<and> map_of sel ''docType'' = Some d' \<and> js_toString h d' = Inr t'
      \<and> fst (queryByString h stub' q') = Inr res'
      \<and> kv' \<in> set (range_entries stub' (t' @ ''0'') (t' @ ''z''))
      \<and> JSON_parse h (kv_value kv') = None"
    let ?it = "range_entries stub' (t' @ ''0'') (t' @ ''z'')"
    have c: "\<And>other. other \<in> set ?it \<Longrightarrow>
      filter (\<lambda>e. Key e = kv_key other) res' =
        replicate (copies h sel other) (query_result h other)"
      using a queryByString_count[of h q' jq' sel d' stub' res' t'] by blast
    from a have raw: "parse_or_raw h (kv_value kv') = JStr (kv_value kv')"
      by (simp add: parse_or_raw_def)
    from a c[of kv'] raw
    have 1: "filter (\<lambda>e. Key e = kv_key kv') res' =
          replicate
            (if length sel = 1 then 1
             else length (filter (field_matches h (JStr (kv_value kv')) (JObj sel))
                            (filter (\<lambda>k. k \<noteq> ''docType'') (map fst sel))))
            \<lparr>Key = kv_key kv', Record = JStr (kv_value kv')\<rparr>"
      by (simp add: copies_def query_result_def)
    from c have 2: "\<forall>other \<in> set ?it.
              filter (\<lambda>e. Key e = kv_key other) res' =
              replicate (copies h sel other)
                \<lparr>Key = kv_key other, Record = parse_or_raw h (kv_value other)\<rparr>"
      by (simp add: query_result_def)
    from 1 2 show "filter (\<lambda>e. Key e = kv_key kv') res' =
          replicate
            (if length sel = 1 then 1
             else length (filter (field_matches h (JStr (kv_value kv')) (JObj sel))
                            (filter (\<lambda>k. k \<noteq> ''docType'') (map fst sel))))
            \<lparr>Key = kv_key kv', Record = JStr (kv_value kv')\<rparr>
        \<and> (\<forall>other \<in> set ?it.
              filter (\<lambda>e. Key e = kv_key other) res' =
              replicate (copies h sel other)
                \<lparr>Key = kv_key other, Record = parse_or_raw h (kv_value other)\<rparr>)"
      by blast
  qed
  have c4: ?failure
    by (blast intro: scan_entry_fails_for_all)
  from c1 c2 c3 c4 show ?thesis by blast
qed


theorem raw_value_in_place_of_record_witness:
  "JSON_parse example_host ''not json'' = None
   \<and> \<lparr>kv_key = ''entity003'', kv_value = ''not json''\<rparr>
        \<in> set (range_entries with_raw_value ''entity0'' ''entityz'')
   \<and> (\<exists>res. fst (queryByString example_host with_raw_value text_all_entities) = Inr res
         \<and> \<lparr>Key = ''entity003'', Record = JStr ''not json''\<rparr> \<in> set res)
   \<and> (\<exists>hist. fst (queryHistoryForKey example_host raw_history text_history_args) = Inr hist
         \<and> \<lparr>TxId = ''tx1'', Timestamp = (100, 0), IsDelete = ''false'',
             HRecord = JStr ''not json''\<rparr> \<in> set hist)
   \<and> fst (queryByString example_host with_raw_value text_of_length_8)
       = Inr [\<lparr>Key = ''entity003'', Record = JStr ''not json''\<rparr>]
   \<and> filter (\<lambda>e. Key e = ''entity003'') [\<lparr>Key = ''entity003'', Record = JStr ''not json''\<rparr>]
       = replicate 1 \<lparr>Key = ''entity003'', Record = JStr ''not json''\<rparr>
   \<and> filter (\<lambda>e. Key e = ''entity001'') [\<lparr>Key = ''entity003'', Record = JStr ''not json''\<rparr>]
       = replicate 0 \<lparr>Key = ''entity001'', Record = value_Alpha\<rparr>
   \<and> scan_entry example_host
         (JObj [(''selector'', JObj [(''docType'', JStr ''entity''),
                                     (''a'', JObj [(''toString'', JNum 1)])])])
         \<lparr>kv_key = ''entity003'', kv_value = ''not json''\<rparr> [] = Inl TypeError
   \<and> scan_entry example_host
         (JObj [(''selector'', JObj [(''docType'', JStr ''entity''),
                                     (''a'', JObj [(''toString'', JNum 1)])])])
         \<lparr>kv_key = ''entity001'', kv_value = text_Alpha\<rparr> [] = Inl TypeError"
proof -
  let ?kv = "\<lparr>kv_key = ''entity003'', kv_value = ''not json''\<rparr>"
  let ?a = "\<lparr>kv_key = ''entity001'', kv_value = text_Alpha\<rparr>"
  let ?m = "\<lparr>km_tx_id = ''tx1'', km_timestamp = (100, 0), km_is_delete = False,
            km_value = ''not json''\<rparr>"
  let ?jq = "JObj [(''selector'', JObj [(''docType'', JStr ''entity'')])]"
  let ?json = "JObj [(''key'', JStr ''001''), (''docType'', JStr ''entity'')]"
  let ?sel = "[(''docType'', JStr ''entity''), (''length'', JNum 8)]"
  let ?jq' = "JObj [(''selector'', JObj ?sel)]"
  let ?jq'' = "JObj [(''selector'', JObj [(''docType'', JStr ''entity''),
                                     (''a'', JObj [(''toString'', JNum 1)])])]"
  let ?res' = "[\<lparr>Key = ''entity003'', Record = JStr ''not json''\<rparr>]"
  have n: "JSON_parse example_host ''not json'' = None" by code_simp
  have p: "JSON_parse example_host text_all_entities = Some ?jq" by code_simp
  have s: "js_get example_host ?jq ''selector'' = Inr (JObj [(''docType'', JStr ''entity'')])"
    by simp
  have pt: "js_toString example_host (JStr ''entity'') = Inr ''entity''" by simp
  have mk: "?kv \<in> set (range_entries with_raw_value (''entity'' @ ''0'') (''entity'' @ ''z''))"
    by code_simp
  have ma: "?a \<in> set (range_entries with_raw_value (''entity'' @ ''0'') (''entity'' @ ''z''))"
    by code_simp
  have pa: "JSON_parse example_host text_history_args = Some ?json" by code_simp
  have k: "js_get example_host ?json ''key'' = Inr (JStr ''001'')" by simp
  have dt: "js_get example_host ?json ''docType'' = Inr (JStr ''entity'')" by simp
  have c: "js_plus_string example_host (JStr ''entity'') (JStr ''001'') = Inr (Some ''entity001'')"
    by (simp add: js_plus_string_def)
  have mm: "?m \<in> set (history_of raw_history ''entity001'')" by code_simp
  have p': "JSON_parse example_host text_of_length_8 = Some ?jq'" by code_simp
  have s': "js_get example_host ?jq' ''selector'' = Inr (JObj ?sel)" by simp
  have d': "map_of ?sel ''docType'' = Some (JStr ''entity'')" by simp
  have r': "fst (queryByString example_host with_raw_value text_of_length_8) = Inr ?res'"
    by code_simp
  have cnt: "(if length ?sel = 1 then 1
             else length (filter (field_matches example_host (JStr (kv_value ?kv)) (JObj ?sel))
                            (filter (\<lambda>k. k \<noteq> ''docType'') (map fst ?sel)))) = 1"
    by code_simp
  have ca: "copies example_host ?sel ?a = 0" by code_simp
  have va: "parse_or_raw example_host text_Alpha = value_Alpha" by code_simp
  have f: "scan_entry example_host ?jq'' ?kv [] = Inl TypeError" by code_simp
  note t = raw_value_in_place_of_record[of example_host text_all_entities ?jq "JStr ''entity''"
      "''entity''" ?kv with_raw_value text_history_args ?json "JStr ''001''" "JStr ''entity''"
      "''entity001''" ?m raw_history text_of_length_8 ?jq' ?sel "JStr ''entity''" "''entity''"
      with_raw_value ?res' ?kv ?kv ?jq'' "[]" TypeError]
  from t p s pt mk n
  have 1: "\<exists>res. fst (queryByString example_host with_raw_value text_all_entities) = Inr res
         \<and> \<lparr>Key = ''entity003'', Record = JStr ''not json''\<rparr> \<in> set res"
    by simp
  from t pa k dt c mm n
  have 2: "\<exists>hist. fst (queryHistoryForKey example_host raw_history text_history_args) = Inr hist
         \<and> \<lparr>TxId = ''tx1'', Timestamp = (100, 0), IsDelete = ''false'',
             HRecord = JStr ''not json''\<rparr> \<in> set hist"
    by simp
  have h3: "JSON_parse example_host text_of_length_8 = Some ?jq'
      \<and> js_get example_host ?jq' ''selector'' = Inr (JObj ?sel)
      \<and> map_of ?sel ''docType'' = Some (JStr ''entity'')
      \<and> js_toString example_host (JStr ''entity'') = Inr ''entity''
      \<and> fst (queryByString example_host with_raw_value text_of_length_8) = Inr ?res'
      \<and> ?kv \<in> set (range_entries with_raw_value (''entity'' @ ''0'') (''entity'' @ ''z''))
      \<and> JSON_parse example_host (kv_value ?kv) = None"
    using p' s' d' pt r' mk n by simp
  note t3 = t[THEN conjunct2, THEN conjunct2, THEN conjunct1, THEN mp, OF h3]
  note 3 = t3[THEN conjunct1] and 4 = t3[THEN conjunct2]
  from 3 have f3: "filter (\<lambda>e. Key e = ''entity003'') ?res'
       = replicate 1 \<lparr>Key = ''entity003'', Record = JStr ''not json''\<rparr>"
    unfolding cnt by (simp only: KV.select_convs)
  from 4 ma have "filter (\<lambda>e. Key e = kv_key ?a) ?res' =
              replicate (copies example_host ?sel ?a)
                \<lparr>Key = kv_key ?a, Record = parse_or_raw example_host (kv_value ?a)\<rparr>"
    by blast
  then have f4: "filter (\<lambda>e. Key e = ''entity001'') ?res'
       = replicate 0 \<lparr>Key = ''entity001'', Record = value_Alpha\<rparr>"
    unfolding ca by (simp only: KV.select_convs va)
  from t n f have 5: "scan_entry example_host ?jq'' ?a [] = Inl TypeError"
    by simp
  from n mk 1 2 r' f3 f4 f 5 show ?thesis by simp
qed


text \<open>
  The claim as the specification words it (the entry still appears in the result) fails
  under a selector with a second field: the text \<^verbatim>\<open>not json\<close> has no \<open>entityName\<close>, and
  the filter drops the entry of \<open>entity003\<close>.
\<close>

theorem raw_value_dropped_by_filter:
  "JSON_parse example_host ''not json'' = None
   \<and> map kv_key (range_entries with_raw_value ''entity0'' ''entityz'')
       = [''entity001'', ''entity002'', ''entity003'']
   \<and> map_of (world with_raw_value) ''entity003'' = Some ''not json''
   \<and> fst (queryByString example_host with_raw_value text_entities_named_Alpha)
       = Inr [\<lparr>Key = ''entity001'', Record = value_Alpha\<rparr>]"
  by code_simp

end
